theory Spec2Isabelle
  imports Main "HOL-Library.Word"
begin

section \<open>Data model\<close>

text \<open>
  The structs of \<^verbatim>\<open>internal/events/finding.go\<close> and of the rule model
  (\<^verbatim>\<open>package filters\<close>), as records. Of the finding only the fields that the
  matching engine, \<^verbatim>\<open>IsAlertable\<close>, the closer and the pipeline read are kept; the
  remaining fields of \<^verbatim>\<open>SecurityHubV2Finding\<close> feed the Slack message only.
  Field names repeat between structs, so they are written qualified
  (\<open>ResourceTag.Name\<close>, \<open>AutoCloseRule.Name\<close>).
\<close>

record Account =
  UID :: string

record Cloud =
  Account :: Account
  Region :: string

record OCSFCompliance =
  Status :: string

record FindingInfo =
  Types :: "string list"

record MetadataProduct =
  Name :: string

record Metadata =
  Product :: MetadataProduct
  UID :: string

record ResourceTag =
  Name :: string
  Value :: string

record OCSFResource =
  Tags :: "ResourceTag list"
  Type :: string

text \<open>\<^verbatim>\<open>Compliance *OCSFCompliance\<close> is a pointer: \<open>None\<close> is \<^verbatim>\<open>nil\<close>.\<close>

record SecurityHubV2Finding =
  Cloud :: Cloud
  Compliance :: "OCSFCompliance option"
  FindingInfo :: FindingInfo
  Metadata :: Metadata
  Resources :: "OCSFResource list"
  Severity :: string
  Status :: string

record ResourceTagFilter =
  Name :: string
  Value :: string

record RuleFilters =
  FindingTypes :: "string list"
  Severity :: "string list"
  ProductName :: "string list"
  ResourceTypes :: "string list"
  ResourceTags :: "ResourceTagFilter list"
  Accounts :: "string list"
  Regions :: "string list"

record RuleAction =
  StatusID :: "32 word"
  Comment :: string

record AutoCloseRule =
  Name :: string
  Enabled :: bool
  Filters :: RuleFilters
  Action :: RuleAction
  SkipNotification :: bool

record FilterEngine =
  Rules :: "AutoCloseRule list"

definition NewFilterEngine :: "AutoCloseRule list \<Rightarrow> FilterEngine" where
  "NewFilterEngine rules = \<lparr>Rules = rules\<rparr>"

section \<open>Matching engine\<close>

text \<open>\<^verbatim>\<open>contains(slice, item)\<close>: linear search with early return.\<close>

fun contains :: "string list \<Rightarrow> string \<Rightarrow> bool" where
  "contains [] item = False"
| "contains (s # rest) item = (if s = item then True else contains rest item)"

text \<open>
  \<^verbatim>\<open>matchesFindingTypes\<close>: the outer loop runs over the filter's types, the inner
  loop over the finding's types.
\<close>

fun matchesFindingTypes_inner :: "string list \<Rightarrow> string \<Rightarrow> bool" where
  "matchesFindingTypes_inner [] filterType = False"
| "matchesFindingTypes_inner (findingType # rest) filterType =
     (if findingType = filterType then True else matchesFindingTypes_inner rest filterType)"

fun matchesFindingTypes_outer :: "SecurityHubV2Finding \<Rightarrow> string list \<Rightarrow> bool" where
  "matchesFindingTypes_outer finding [] = False"
| "matchesFindingTypes_outer finding (filterType # types) =
     (if matchesFindingTypes_inner (Types (FindingInfo finding)) filterType then True
      else matchesFindingTypes_outer finding types)"

definition matchesFindingTypes :: "SecurityHubV2Finding \<Rightarrow> string list \<Rightarrow> bool" where
  "matchesFindingTypes finding types = matchesFindingTypes_outer finding types"

text \<open>
  \<^verbatim>\<open>matchesResourceTypes\<close>: the outer loop runs over the finding's resources, the
  inner loop over the filter's types.
\<close>

fun matchesResourceTypes_inner :: "OCSFResource \<Rightarrow> string list \<Rightarrow> bool" where
  "matchesResourceTypes_inner resource [] = False"
| "matchesResourceTypes_inner resource (filterType # types) =
     (if OCSFResource.Type resource = filterType then True
      else matchesResourceTypes_inner resource types)"

fun matchesResourceTypes_outer :: "OCSFResource list \<Rightarrow> string list \<Rightarrow> bool" where
  "matchesResourceTypes_outer [] types = False"
| "matchesResourceTypes_outer (resource # rest) types =
     (if matchesResourceTypes_inner resource types then True
      else matchesResourceTypes_outer rest types)"

definition matchesResourceTypes :: "SecurityHubV2Finding \<Rightarrow> string list \<Rightarrow> bool" where
  "matchesResourceTypes finding types = matchesResourceTypes_outer (Resources finding) types"

text \<open>
  \<^verbatim>\<open>resourceHasAllTags\<close>: for every filter tag the inner loop sets \<^verbatim>\<open>found\<close> at
  the first resource tag with the same name and the same value.
\<close>

fun resourceHasAllTags_found :: "ResourceTag list \<Rightarrow> ResourceTagFilter \<Rightarrow> bool" where
  "resourceHasAllTags_found [] filterTag = False"
| "resourceHasAllTags_found (tag # rest) filterTag =
     (if ResourceTag.Name tag = ResourceTagFilter.Name filterTag
         \<and> ResourceTag.Value tag = ResourceTagFilter.Value filterTag
      then True
      else resourceHasAllTags_found rest filterTag)"

fun resourceHasAllTags :: "ResourceTag list \<Rightarrow> ResourceTagFilter list \<Rightarrow> bool" where
  "resourceHasAllTags resourceTags [] = True"
| "resourceHasAllTags resourceTags (filterTag # tagFilters) =
     (if \<not> resourceHasAllTags_found resourceTags filterTag then False
      else resourceHasAllTags resourceTags tagFilters)"

fun matchesResourceTags_loop :: "OCSFResource list \<Rightarrow> ResourceTagFilter list \<Rightarrow> bool" where
  "matchesResourceTags_loop [] tagFilters = False"
| "matchesResourceTags_loop (resource # rest) tagFilters =
     (if resourceHasAllTags (Tags resource) tagFilters then True
      else matchesResourceTags_loop rest tagFilters)"

definition matchesResourceTags :: "SecurityHubV2Finding \<Rightarrow> ResourceTagFilter list \<Rightarrow> bool" where
  "matchesResourceTags finding tagFilters =
     (if length (Resources finding) = 0 then False
      else matchesResourceTags_loop (Resources finding) tagFilters)"

text \<open>\<^verbatim>\<open>matchesFilters\<close>: seven guarded early returns, then \<^verbatim>\<open>true\<close>.\<close>

definition matchesFilters :: "FilterEngine \<Rightarrow> SecurityHubV2Finding \<Rightarrow> RuleFilters \<Rightarrow> bool" where
  "matchesFilters e finding filters =
     (if length (FindingTypes filters) > 0
         \<and> \<not> matchesFindingTypes finding (FindingTypes filters) then False
      else if length (RuleFilters.Severity filters) > 0
         \<and> \<not> contains (RuleFilters.Severity filters) (SecurityHubV2Finding.Severity finding)
      then False
      else if length (ProductName filters) > 0
         \<and> \<not> contains (ProductName filters) (MetadataProduct.Name (Product (Metadata finding)))
      then False
      else if length (ResourceTypes filters) > 0
         \<and> \<not> matchesResourceTypes finding (ResourceTypes filters) then False
      else if length (ResourceTags filters) > 0
         \<and> \<not> matchesResourceTags finding (ResourceTags filters) then False
      else if length (Accounts filters) > 0
         \<and> \<not> contains (Accounts filters) (Account.UID (Account (Cloud finding))) then False
      else if length (Regions filters) > 0
         \<and> \<not> contains (Regions filters) (Region (Cloud finding)) then False
      else True)"

text \<open>
  \<^verbatim>\<open>FindMatchingRule\<close> returns \<^verbatim>\<open>(&e.Rules[i], true)\<close> or \<^verbatim>\<open>(nil, false)\<close>. The
  pointer into \<^verbatim>\<open>e.Rules\<close> is modelled by the index \<open>i\<close> it points at, \<^verbatim>\<open>nil\<close>
  by \<open>None\<close>. The loop \<^verbatim>\<open>for i := range e.Rules\<close> is the recursion over the
  rules that remain, with the running index.
\<close>

fun FindMatchingRule_loop ::
  "FilterEngine \<Rightarrow> SecurityHubV2Finding \<Rightarrow> nat \<Rightarrow> AutoCloseRule list \<Rightarrow> nat option \<times> bool" where
  "FindMatchingRule_loop e finding i [] = (None, False)"
| "FindMatchingRule_loop e finding i (rule # rest) =
     (if \<not> Enabled rule then FindMatchingRule_loop e finding (Suc i) rest
      else if matchesFilters e finding (Filters rule) then (Some i, True)
      else FindMatchingRule_loop e finding (Suc i) rest)"

definition FindMatchingRule :: "FilterEngine \<Rightarrow> SecurityHubV2Finding \<Rightarrow> nat option \<times> bool" where
  "FindMatchingRule e finding = FindMatchingRule_loop e finding 0 (Rules e)"

section \<open>Alertability\<close>

definition alertSeverities :: "string list" where
  "alertSeverities = [''Critical'', ''High'', ''Medium'']"

definition IsAlertable :: "SecurityHubV2Finding \<Rightarrow> bool" where
  "IsAlertable shf =
     (if SecurityHubV2Finding.Status shf \<noteq> ''New'' then False
      else if (case Compliance shf of None \<Rightarrow> False
               | Some c \<Rightarrow> OCSFCompliance.Status c = ''Fail'') then True
      else SecurityHubV2Finding.Severity shf \<in> set alertSeverities)"

section \<open>Errors\<close>

text \<open>
  A Go \<^verbatim>\<open>error\<close> value. \<open>Newf\<close> and \<open>Wrap\<close> are the constructors of
  \<^verbatim>\<open>cockroachdb/errors\<close> with the formatted message written out (\<^verbatim>\<open>Wrapf\<close> is
  \<open>Wrap\<close> with its formatted message); \<open>SyntaxError\<close> and \<open>UnmarshalTypeError\<close> are
  the two errors of \<^verbatim>\<open>encoding/json\<close>; \<open>External\<close> is an error produced by a
  remote service or its client library. A return of \<^verbatim>\<open>nil\<close> is \<open>None\<close> of
  \<open>err option\<close>, and a function returning \<^verbatim>\<open>(T, error)\<close> returns \<open>err + T\<close>.
  \<open>Panic\<close> stands for a run-time panic (a nil dereference), which is no returned
  error; it is kept so that every dereference of the source has its branch.
\<close>

datatype err =
    Newf string
  | Wrap err string
  | SyntaxError
  | UnmarshalTypeError string
  | External string
  | Panic string

section \<open>JSON documents and decoding into the rule structs\<close>

text \<open>
  \<^verbatim>\<open>encoding/json\<close> is a library outside the repository. Its work is split in two.
  The syntax analysis of a byte sequence (\<^verbatim>\<open>checkValid\<close> and the scanner) is a
  parameter, \<open>parse_document\<close> below: it gives the document as a tree, with strings and
  member names already unquoted and the members of an object in document order, or
  \<open>None\<close> for a \<^verbatim>\<open>SyntaxError\<close>. The decoding of a tree into the rule structs
  follows the struct tags of the source and the documented behaviour of
  \<^verbatim>\<open>json.Unmarshal\<close>: a member is stored into the field whose tag name equals its
  name under Unicode simple case folding, unknown members are skipped, \<^verbatim>\<open>null\<close>
  leaves a bool, number, string or struct untouched and makes a slice nil, a value of
  the wrong JSON kind (or a number that is no 32-bit integer) is an
  \<^verbatim>\<open>UnmarshalTypeError\<close>, and a repeated member is decoded again into the value
  that the earlier occurrence left. Elements of a decoded array start from the zero
  value (the reuse of slice storage between two occurrences of a repeated member is
  not modelled; it changes neither the error outcome nor any bool field).
\<close>

datatype number = IntLit int | FracLit string

datatype json =
    JNull
  | JBool bool
  | JNumber number
  | JString string
  | JArray "json list"
  | JObject "(string \<times> json) list"

definition toUpperASCII :: "char \<Rightarrow> char" where
  "toUpperASCII c =
     (if (97::nat) \<le> of_char c \<and> of_char c \<le> (122::nat)
      then char_of (of_char c - (32::nat)) else c)"

text \<open>
  \<^verbatim>\<open>foldName\<close>: ASCII letters go to upper case; the two non-ASCII runes that fold
  to an ASCII letter, U+017F (bytes C5 BF, to S) and U+212A (bytes E2 84 AA, to K), go
  to that letter. Every other byte is kept, which decides equality with the folded
  form of an ASCII tag name exactly as the full folding does.
\<close>

fun foldName :: "string \<Rightarrow> string" where
  "foldName [] = []"
| "foldName [a] = [toUpperASCII a]"
| "foldName [a, b] =
     (if a = CHR 0xC5 \<and> b = CHR 0xBF then ''S'' else toUpperASCII a # foldName [b])"
| "foldName (a # b # c # cs) =
     (if a = CHR 0xE2 \<and> b = CHR 0x84 \<and> c = CHR 0xAA then CHR ''K'' # foldName cs
      else if a = CHR 0xC5 \<and> b = CHR 0xBF then CHR ''S'' # foldName (c # cs)
      else toUpperASCII a # foldName (b # c # cs))"

definition matchesField :: "string \<Rightarrow> string \<Rightarrow> bool" where
  "matchesField key name = (key = name \<or> foldName key = foldName name)"

definition decode_string :: "json \<Rightarrow> string \<Rightarrow> err + string" where
  "decode_string v cur =
     (case v of JString s \<Rightarrow> Inr s | JNull \<Rightarrow> Inr cur
      | _ \<Rightarrow> Inl (UnmarshalTypeError ''string''))"

definition decode_bool :: "json \<Rightarrow> bool \<Rightarrow> err + bool" where
  "decode_bool v cur =
     (case v of JBool b \<Rightarrow> Inr b | JNull \<Rightarrow> Inr cur
      | _ \<Rightarrow> Inl (UnmarshalTypeError ''bool''))"

definition decode_int32 :: "json \<Rightarrow> 32 word \<Rightarrow> err + 32 word" where
  "decode_int32 v cur =
     (case v of
        JNumber n \<Rightarrow>
          (case n of
             IntLit i \<Rightarrow>
               (if - (2 ^ 31) \<le> i \<and> i < 2 ^ 31 then Inr (word_of_int i)
                else Inl (UnmarshalTypeError ''int32''))
           | FracLit t \<Rightarrow> Inl (UnmarshalTypeError ''int32''))
      | JNull \<Rightarrow> Inr cur
      | _ \<Rightarrow> Inl (UnmarshalTypeError ''int32''))"

fun decode_elements :: "(json \<Rightarrow> 'a \<Rightarrow> err + 'a) \<Rightarrow> 'a \<Rightarrow> json list \<Rightarrow> err + 'a list" where
  "decode_elements dec zero [] = Inr []"
| "decode_elements dec zero (v # vs) =
     (case dec v zero of
        Inl e \<Rightarrow> Inl e
      | Inr x \<Rightarrow>
          (case decode_elements dec zero vs of
             Inl e \<Rightarrow> Inl e
           | Inr xs \<Rightarrow> Inr (x # xs)))"

definition decode_slice :: "(json \<Rightarrow> 'a \<Rightarrow> err + 'a) \<Rightarrow> 'a \<Rightarrow> json \<Rightarrow> err + 'a list" where
  "decode_slice dec zero v =
     (case v of JArray vs \<Rightarrow> decode_elements dec zero vs | JNull \<Rightarrow> Inr []
      | _ \<Rightarrow> Inl (UnmarshalTypeError ''slice''))"

fun decode_members ::
  "(string \<Rightarrow> json \<Rightarrow> 'a \<Rightarrow> err + 'a) \<Rightarrow> (string \<times> json) list \<Rightarrow> 'a \<Rightarrow> err + 'a" where
  "decode_members field [] cur = Inr cur"
| "decode_members field ((k, v) # ms) cur =
     (case field k v cur of
        Inl e \<Rightarrow> Inl e
      | Inr cur' \<Rightarrow> decode_members field ms cur')"

definition decode_struct ::
  "(string \<Rightarrow> json \<Rightarrow> 'a \<Rightarrow> err + 'a) \<Rightarrow> json \<Rightarrow> 'a \<Rightarrow> err + 'a" where
  "decode_struct field v cur =
     (case v of JObject ms \<Rightarrow> decode_members field ms cur | JNull \<Rightarrow> Inr cur
      | _ \<Rightarrow> Inl (UnmarshalTypeError ''struct''))"

definition store :: "err + 'b \<Rightarrow> ('b \<Rightarrow> 'a) \<Rightarrow> err + 'a" where
  "store r upd = (case r of Inl e \<Rightarrow> Inl e | Inr x \<Rightarrow> Inr (upd x))"

definition zero_ResourceTagFilter :: ResourceTagFilter where
  "zero_ResourceTagFilter = \<lparr>ResourceTagFilter.Name = [], Value = []\<rparr>"

definition zero_RuleFilters :: RuleFilters where
  "zero_RuleFilters =
     \<lparr>FindingTypes = [], Severity = [], ProductName = [], ResourceTypes = [],
      ResourceTags = [], Accounts = [], Regions = []\<rparr>"

definition zero_RuleAction :: RuleAction where
  "zero_RuleAction = \<lparr>StatusID = 0, Comment = []\<rparr>"

definition zero_AutoCloseRule :: AutoCloseRule where
  "zero_AutoCloseRule =
     \<lparr>AutoCloseRule.Name = [], Enabled = False, Filters = zero_RuleFilters,
      Action = zero_RuleAction, SkipNotification = False\<rparr>"

definition field_ResourceTagFilter ::
  "string \<Rightarrow> json \<Rightarrow> ResourceTagFilter \<Rightarrow> err + ResourceTagFilter" where
  "field_ResourceTagFilter k v cur =
     (if matchesField k ''name''
      then store (decode_string v (ResourceTagFilter.Name cur))
             (\<lambda>x. cur\<lparr>ResourceTagFilter.Name := x\<rparr>)
      else if matchesField k ''value''
      then store (decode_string v (ResourceTagFilter.Value cur))
             (\<lambda>x. cur\<lparr>ResourceTagFilter.Value := x\<rparr>)
      else Inr cur)"

definition decode_ResourceTagFilter :: "json \<Rightarrow> ResourceTagFilter \<Rightarrow> err + ResourceTagFilter" where
  "decode_ResourceTagFilter = decode_struct field_ResourceTagFilter"

definition decode_strings :: "json \<Rightarrow> err + string list" where
  "decode_strings = decode_slice decode_string []"

definition field_RuleFilters :: "string \<Rightarrow> json \<Rightarrow> RuleFilters \<Rightarrow> err + RuleFilters" where
  "field_RuleFilters k v cur =
     (if matchesField k ''finding_types''
      then store (decode_strings v) (\<lambda>x. cur\<lparr>FindingTypes := x\<rparr>)
      else if matchesField k ''severity''
      then store (decode_strings v) (\<lambda>x. cur\<lparr>RuleFilters.Severity := x\<rparr>)
      else if matchesField k ''product_name''
      then store (decode_strings v) (\<lambda>x. cur\<lparr>ProductName := x\<rparr>)
      else if matchesField k ''resource_types''
      then store (decode_strings v) (\<lambda>x. cur\<lparr>ResourceTypes := x\<rparr>)
      else if matchesField k ''resource_tags''
      then store (decode_slice decode_ResourceTagFilter zero_ResourceTagFilter v)
             (\<lambda>x. cur\<lparr>ResourceTags := x\<rparr>)
      else if matchesField k ''accounts''
      then store (decode_strings v) (\<lambda>x. cur\<lparr>Accounts := x\<rparr>)
      else if matchesField k ''regions''
      then store (decode_strings v) (\<lambda>x. cur\<lparr>Regions := x\<rparr>)
      else Inr cur)"

definition decode_RuleFilters :: "json \<Rightarrow> RuleFilters \<Rightarrow> err + RuleFilters" where
  "decode_RuleFilters = decode_struct field_RuleFilters"

definition field_RuleAction :: "string \<Rightarrow> json \<Rightarrow> RuleAction \<Rightarrow> err + RuleAction" where
  "field_RuleAction k v cur =
     (if matchesField k ''status_id''
      then store (decode_int32 v (StatusID cur)) (\<lambda>x. cur\<lparr>StatusID := x\<rparr>)
      else if matchesField k ''comment''
      then store (decode_string v (RuleAction.Comment cur)) (\<lambda>x. cur\<lparr>RuleAction.Comment := x\<rparr>)
      else Inr cur)"

definition decode_RuleAction :: "json \<Rightarrow> RuleAction \<Rightarrow> err + RuleAction" where
  "decode_RuleAction = decode_struct field_RuleAction"

definition field_AutoCloseRule :: "string \<Rightarrow> json \<Rightarrow> AutoCloseRule \<Rightarrow> err + AutoCloseRule" where
  "field_AutoCloseRule k v cur =
     (if matchesField k ''name''
      then store (decode_string v (AutoCloseRule.Name cur)) (\<lambda>x. cur\<lparr>AutoCloseRule.Name := x\<rparr>)
      else if matchesField k ''enabled''
      then store (decode_bool v (Enabled cur)) (\<lambda>x. cur\<lparr>Enabled := x\<rparr>)
      else if matchesField k ''filters''
      then store (decode_RuleFilters v (Filters cur)) (\<lambda>x. cur\<lparr>Filters := x\<rparr>)
      else if matchesField k ''action''
      then store (decode_RuleAction v (Action cur)) (\<lambda>x. cur\<lparr>Action := x\<rparr>)
      else if matchesField k ''skip_notification''
      then store (decode_bool v (SkipNotification cur)) (\<lambda>x. cur\<lparr>SkipNotification := x\<rparr>)
      else Inr cur)"

definition decode_AutoCloseRule :: "json \<Rightarrow> AutoCloseRule \<Rightarrow> err + AutoCloseRule" where
  "decode_AutoCloseRule = decode_struct field_AutoCloseRule"

text \<open>
  \<^verbatim>\<open>EventDetail\<close> holds the findings as \<^verbatim>\<open>json.RawMessage\<close>: the bytes of each
  array element, kept undecoded. They come out of a checked document, so they are
  modelled by the element's tree.
\<close>

type_synonym RawMessage = json

record EventDetail =
  Findings :: "RawMessage list"

definition decode_RawMessage :: "json \<Rightarrow> RawMessage \<Rightarrow> err + RawMessage" where
  "decode_RawMessage v cur = Inr v"

definition field_EventDetail :: "string \<Rightarrow> json \<Rightarrow> EventDetail \<Rightarrow> err + EventDetail" where
  "field_EventDetail k v cur =
     (if matchesField k ''findings''
      then store (decode_slice decode_RawMessage JNull v) (\<lambda>x. cur\<lparr>Findings := x\<rparr>)
      else Inr cur)"

text \<open>
  The library as the pipeline sees it: the syntax analysis, and the decoding of a
  tree into \<^verbatim>\<open>SecurityHubV2Finding\<close> (a struct of some twenty fields and a dozen
  nested structs, any of which can raise \<^verbatim>\<open>UnmarshalTypeError\<close>), both taken as
  parameters.
\<close>

record encoding_json =
  parse_document :: "string \<Rightarrow> json option"
  decode_SecurityHubV2Finding :: "json \<Rightarrow> err + SecurityHubV2Finding"

definition Unmarshal_rules :: "encoding_json \<Rightarrow> string \<Rightarrow> err + AutoCloseRule list" where
  "Unmarshal_rules lib data =
     (case parse_document lib data of
        None \<Rightarrow> Inl SyntaxError
      | Some v \<Rightarrow> decode_slice decode_AutoCloseRule zero_AutoCloseRule v)"

definition Unmarshal_rule :: "encoding_json \<Rightarrow> string \<Rightarrow> err + AutoCloseRule" where
  "Unmarshal_rule lib data =
     (case parse_document lib data of
        None \<Rightarrow> Inl SyntaxError
      | Some v \<Rightarrow> decode_AutoCloseRule v zero_AutoCloseRule)"

definition Unmarshal_EventDetail :: "encoding_json \<Rightarrow> string \<Rightarrow> err + EventDetail" where
  "Unmarshal_EventDetail lib data =
     (case parse_document lib data of
        None \<Rightarrow> Inl SyntaxError
      | Some v \<Rightarrow> decode_struct field_EventDetail v \<lparr>Findings = []\<rparr>)"

section \<open>Rule documents: \<^verbatim>\<open>parseRules\<close>\<close>

text \<open>
  \<^verbatim>\<open>strings.TrimSpace\<close> removes the leading and the trailing white space of
  \<^verbatim>\<open>unicode.IsSpace\<close>. On the bytes of the string these are the six ASCII
  characters 09 to 0D and 20, and the UTF-8 encodings of U+0085, U+00A0 (two bytes)
  and of U+1680, U+2000 to U+200A, U+2028, U+2029, U+202F, U+205F, U+3000 (three
  bytes).
\<close>

definition asciiSpace :: "char \<Rightarrow> bool" where
  "asciiSpace c =
     (c = CHR 0x09 \<or> c = CHR 0x0A \<or> c = CHR 0x0B \<or> c = CHR 0x0C \<or> c = CHR 0x0D \<or> c = CHR 0x20)"

definition isSpace2 :: "char \<Rightarrow> char \<Rightarrow> bool" where
  "isSpace2 a b = (a = CHR 0xC2 \<and> (b = CHR 0x85 \<or> b = CHR 0xA0))"

definition isSpace3 :: "char \<Rightarrow> char \<Rightarrow> char \<Rightarrow> bool" where
  "isSpace3 a b c =
     ((a = CHR 0xE1 \<and> b = CHR 0x9A \<and> c = CHR 0x80)
      \<or> (a = CHR 0xE2 \<and> b = CHR 0x80
           \<and> (((128::nat) \<le> of_char c \<and> of_char c \<le> (138::nat))
                \<or> c = CHR 0xA8 \<or> c = CHR 0xA9 \<or> c = CHR 0xAF))
      \<or> (a = CHR 0xE2 \<and> b = CHR 0x81 \<and> c = CHR 0x9F)
      \<or> (a = CHR 0xE3 \<and> b = CHR 0x80 \<and> c = CHR 0x80))"

fun trimLeft :: "string \<Rightarrow> string" where
  "trimLeft [] = []"
| "trimLeft [a] = (if asciiSpace a then [] else [a])"
| "trimLeft [a, b] =
     (if asciiSpace a then trimLeft [b] else if isSpace2 a b then [] else [a, b])"
| "trimLeft (a # b # c # cs) =
     (if asciiSpace a then trimLeft (b # c # cs)
      else if isSpace2 a b then trimLeft (c # cs)
      else if isSpace3 a b c then trimLeft cs
      else a # b # c # cs)"

text \<open>The same from the end, on the reversed string: \<open>a\<close> is the last byte.\<close>

fun trimRight_rev :: "string \<Rightarrow> string" where
  "trimRight_rev [] = []"
| "trimRight_rev [a] = (if asciiSpace a then [] else [a])"
| "trimRight_rev [a, b] =
     (if asciiSpace a then trimRight_rev [b] else if isSpace2 b a then [] else [a, b])"
| "trimRight_rev (a # b # c # cs) =
     (if asciiSpace a then trimRight_rev (b # c # cs)
      else if isSpace2 b a then trimRight_rev (c # cs)
      else if isSpace3 c b a then trimRight_rev cs
      else a # b # c # cs)"

definition trimRight :: "string \<Rightarrow> string" where
  "trimRight s = rev (trimRight_rev (rev s))"

definition TrimSpace :: "string \<Rightarrow> string" where
  "TrimSpace s = trimRight (trimLeft s)"

definition HasSuffix :: "string \<Rightarrow> string \<Rightarrow> bool" where
  "HasSuffix s suffix =
     (length s \<ge> length suffix \<and> drop (length s - length suffix) s = suffix)"

text \<open>
  \<^verbatim>\<open>parseRules\<close>. A nil slice and an empty slice are both \<open>[]\<close>. \<^verbatim>\<open>data[0]\<close> is
  read after the length check only.
\<close>

definition parseRules :: "encoding_json \<Rightarrow> string \<Rightarrow> err + AutoCloseRule list" where
  "parseRules lib data0 =
     (let data = TrimSpace data0 in
      if length data = 0 then Inr []
      else if data ! 0 = CHR ''[''
      then (case Unmarshal_rules lib data of
              Inl e \<Rightarrow> Inl (Wrap e ''failed to parse rules array'')
            | Inr rules \<Rightarrow> Inr rules)
      else (case Unmarshal_rule lib data of
              Inl e \<Rightarrow> Inl (Wrap e ''failed to parse single rule'')
            | Inr rule \<Rightarrow> Inr [rule]))"

section \<open>Loading rules from the object store\<close>

text \<open>
  The \<^verbatim>\<open>S3Client\<close> interface. \<^verbatim>\<open>listObjects\<close> reads the listing through the SDK's
  paginator; the model takes the outcome of each \<^verbatim>\<open>NextPage\<close> call, in order, until
  \<^verbatim>\<open>HasMorePages\<close> is false: a finite sequence, each entry an error or a page.
  \<^verbatim>\<open>GetObject\<close> gives an error or a body, and reading the body (\<^verbatim>\<open>io.ReadAll\<close>)
  gives an error or its bytes.
\<close>

record S3Object =
  Key :: "string option"

record ListObjectsV2Output =
  Contents :: "S3Object list"

record S3Client =
  ListObjectsV2 :: "string \<Rightarrow> string \<Rightarrow> (err + ListObjectsV2Output) list"
  GetObject :: "string \<Rightarrow> string \<Rightarrow> err + (err + string)"

record S3RulesLoader =
  client :: S3Client

definition NewS3RulesLoader :: "S3Client \<Rightarrow> S3RulesLoader" where
  "NewS3RulesLoader c = \<lparr>S3RulesLoader.client = c\<rparr>"

fun listObjects_contents :: "S3Object list \<Rightarrow> string list \<Rightarrow> string list" where
  "listObjects_contents [] keys = keys"
| "listObjects_contents (obj # rest) keys =
     (case Key obj of
        None \<Rightarrow> listObjects_contents rest keys
      | Some k \<Rightarrow> listObjects_contents rest (keys @ [k]))"

fun listObjects_pages :: "(err + ListObjectsV2Output) list \<Rightarrow> string list \<Rightarrow> err + string list" where
  "listObjects_pages [] keys = Inr keys"
| "listObjects_pages (p # pages) keys =
     (case p of
        Inl e \<Rightarrow> Inl e
      | Inr page \<Rightarrow> listObjects_pages pages (listObjects_contents (Contents page) keys))"

definition listObjects :: "S3RulesLoader \<Rightarrow> string \<Rightarrow> string \<Rightarrow> err + string list" where
  "listObjects l bucket prefix =
     listObjects_pages (ListObjectsV2 (S3RulesLoader.client l) bucket prefix) []"

definition loadRulesFromObject ::
  "encoding_json \<Rightarrow> S3RulesLoader \<Rightarrow> string \<Rightarrow> string \<Rightarrow> err + AutoCloseRule list" where
  "loadRulesFromObject lib l bucket key =
     (case GetObject (S3RulesLoader.client l) bucket key of
        Inl e \<Rightarrow> Inl e
      | Inr body \<Rightarrow>
          (case body of
             Inl e \<Rightarrow> Inl (Wrap e ''failed to read object body'')
           | Inr data \<Rightarrow> parseRules lib data))"

fun LoadRules_loop ::
  "encoding_json \<Rightarrow> S3RulesLoader \<Rightarrow> string \<Rightarrow> string list \<Rightarrow> AutoCloseRule list
     \<Rightarrow> err + AutoCloseRule list" where
  "LoadRules_loop lib l bucket [] allRules = Inr allRules"
| "LoadRules_loop lib l bucket (key # keys) allRules =
     (if \<not> HasSuffix key ''.json'' then LoadRules_loop lib l bucket keys allRules
      else (case loadRulesFromObject lib l bucket key of
              Inl e \<Rightarrow> Inl (Wrap e (''failed to load rules from s3://'' @ bucket @ ''/'' @ key))
            | Inr rules \<Rightarrow> LoadRules_loop lib l bucket keys (allRules @ rules)))"

definition LoadRules ::
  "encoding_json \<Rightarrow> S3RulesLoader \<Rightarrow> string \<Rightarrow> string \<Rightarrow> err + AutoCloseRule list" where
  "LoadRules lib l bucket prefix =
     (case listObjects l bucket prefix of
        Inl e \<Rightarrow> Inl (Wrap e ''failed to list S3 objects'')
      | Inr keys \<Rightarrow>
          if length keys = 0
          then Inl (Newf (''no objects found in s3://'' @ bucket @ ''/'' @ prefix))
          else (case LoadRules_loop lib l bucket keys [] of
                  Inl e \<Rightarrow> Inl e
                | Inr allRules \<Rightarrow>
                    if length allRules = 0
                    then Inl (Newf (''no rules loaded from s3://'' @ bucket @ ''/'' @ prefix))
                    else Inr allRules))"

section \<open>The closer\<close>

text \<open>
  \<^verbatim>\<open>securityhub.Client\<close> is the remote service: its answer to
  \<^verbatim>\<open>BatchUpdateFindingsV2\<close> is an error or an output with the findings it did not
  process. \<^verbatim>\<open>ErrorMessage\<close> is a \<^verbatim>\<open>*string\<close>, read with \<^verbatim>\<open>aws.ToString\<close>
  (the empty string for \<^verbatim>\<open>nil\<close>).
\<close>

record BatchUpdateFindingsV2Input =
  MetadataUids :: "string list"
  StatusId :: "32 word"
  Comment :: string

record UnprocessedFinding =
  ErrorCode :: string
  ErrorMessage :: "string option"

record BatchUpdateFindingsV2Output =
  UnprocessedFindings :: "UnprocessedFinding list"

record securityhub_Client =
  BatchUpdateFindingsV2 :: "BatchUpdateFindingsV2Input \<Rightarrow> err + BatchUpdateFindingsV2Output"

record FindingCloser =
  client :: securityhub_Client

definition NewFindingCloser :: "securityhub_Client \<Rightarrow> FindingCloser" where
  "NewFindingCloser c = \<lparr>FindingCloser.client = c\<rparr>"

definition ToString :: "string option \<Rightarrow> string" where
  "ToString p = (case p of None \<Rightarrow> [] | Some v \<Rightarrow> v)"

definition CloseFinding ::
  "FindingCloser \<Rightarrow> SecurityHubV2Finding \<Rightarrow> 32 word \<Rightarrow> string \<Rightarrow> err option" where
  "CloseFinding c finding statusID comment =
     (let input = \<lparr>MetadataUids = [Metadata.UID (Metadata finding)], StatusId = statusID,
                    Comment = comment\<rparr>
      in case BatchUpdateFindingsV2 (FindingCloser.client c) input of
           Inl e \<Rightarrow> Some (Wrap e ''failed to update finding'')
         | Inr output \<Rightarrow>
             if length (UnprocessedFindings output) > 0
             then (let unprocessed = UnprocessedFindings output ! 0
                   in Some (Newf (''failed to update finding '' @ Metadata.UID (Metadata finding)
                                  @ '': '' @ ErrorCode unprocessed @ '' - ''
                                  @ ToString (ErrorMessage unprocessed))))
             else None)"

section \<open>The application and its pipeline\<close>

text \<open>
  \<^verbatim>\<open>Config\<close> is declared in a file that is not among the sources at hand; these are
  the fields that \<^verbatim>\<open>New\<close> and \<^verbatim>\<open>Process\<close> read, with the types their uses give.
\<close>

record Config =
  DebugEnabled :: bool
  AutoCloseRules :: "AutoCloseRule list"
  AutoCloseRulesS3Bucket :: string
  AutoCloseRulesS3Prefix :: string
  SlackEnabled :: bool
  SlackToken :: string
  SlackChannel :: string
  AwsConsoleURL :: string
  AwsAccessPortalURL :: string
  AwsAccessRoleName :: string
  AWSSecurityHubv2Region :: string

text \<open>
  The \<^verbatim>\<open>Notifier\<close> interface has one method; its result is what the delivery
  answers. In \<^verbatim>\<open>App\<close> the interface value may be \<^verbatim>\<open>nil\<close> (\<open>None\<close>). The
  pointers \<^verbatim>\<open>Config\<close>, \<^verbatim>\<open>FilterEngine\<close> and \<^verbatim>\<open>FindingCloser\<close>, which \<^verbatim>\<open>New\<close>
  always sets, are modelled by what they point at. The logger is left out: logging
  decides no branch and no result.
\<close>

record Notifier =
  Notify :: "SecurityHubV2Finding \<Rightarrow> err option"

record App =
  Config :: Config
  FilterEngine :: FilterEngine
  FindingCloser :: FindingCloser
  Notifier :: "Notifier option"

text \<open>
  What \<^verbatim>\<open>New\<close> obtains from outside: the AWS configuration (or the error of
  loading it), from which the two service clients are made, and the constructor of
  the Slack notifier with its six arguments.
\<close>

record aws_Config =
  securityhub_NewFromConfig :: securityhub_Client
  s3_NewFromConfig :: S3Client

record environment =
  LoadDefaultConfig :: "err + aws_Config"
  NewSlackNotifier :: "string \<Rightarrow> string \<Rightarrow> string \<Rightarrow> string \<Rightarrow> string \<Rightarrow> string \<Rightarrow> Notifier"

text \<open>\<^verbatim>\<open>LoadRulesFromS3\<close> uses its receiver for logging only.\<close>

definition LoadRulesFromS3 ::
  "encoding_json \<Rightarrow> S3RulesLoader \<Rightarrow> string \<Rightarrow> string \<Rightarrow> err + AutoCloseRule list" where
  "LoadRulesFromS3 lib loader bucket prefix =
     (case LoadRules lib loader bucket prefix of
        Inl e \<Rightarrow> Inl e
      | Inr rules \<Rightarrow> Inr rules)"

definition New :: "encoding_json \<Rightarrow> environment \<Rightarrow> Config \<Rightarrow> err + App" where
  "New lib env cfg =
     (case LoadDefaultConfig env of
        Inl e \<Rightarrow> Inl (Wrap e ''failed to load aws config - check credentials and region'')
      | Inr awsCfg \<Rightarrow>
          (let closer = NewFindingCloser (securityhub_NewFromConfig awsCfg);
               rules0 = AutoCloseRules cfg;
               loaded =
                 (if AutoCloseRulesS3Bucket cfg \<noteq> []
                  then (let s3Client = s3_NewFromConfig awsCfg;
                            loader = NewS3RulesLoader s3Client
                        in case LoadRulesFromS3 lib loader (AutoCloseRulesS3Bucket cfg)
                                  (AutoCloseRulesS3Prefix cfg) of
                             Inl e \<Rightarrow>
                               Inl (Wrap e (''failed to load rules from s3://''
                                            @ AutoCloseRulesS3Bucket cfg @ ''/''
                                            @ AutoCloseRulesS3Prefix cfg))
                           | Inr s3Rules \<Rightarrow>
                               if length (AutoCloseRules cfg) > 0
                               then Inr (AutoCloseRules cfg @ s3Rules)
                               else Inr s3Rules)
                  else Inr rules0)
           in case loaded of
                Inl e \<Rightarrow> Inl e
              | Inr rules \<Rightarrow>
                  Inr \<lparr>Config = cfg,
                       FilterEngine = NewFilterEngine rules,
                       FindingCloser = closer,
                       Notifier =
                         (if SlackEnabled cfg
                          then Some (NewSlackNotifier env (SlackToken cfg) (SlackChannel cfg)
                                       (AwsConsoleURL cfg) (AwsAccessPortalURL cfg)
                                       (AwsAccessRoleName cfg) (AWSSecurityHubv2Region cfg))
                          else None)\<rparr>))"

text \<open>
  The calls that \<^verbatim>\<open>Process\<close> makes to its four components (finding parser, matching
  engine, closer, notifier) are recorded, in order, in a trace that is threaded
  through the pipeline.
\<close>

datatype call =
    CallNewSecurityHubFinding RawMessage
  | CallFindMatchingRule SecurityHubV2Finding
  | CallCloseFinding SecurityHubV2Finding "32 word" string
  | CallNotify SecurityHubV2Finding

record SecurityHubEventInput =
  EventID :: string
  DetailType :: string
  Detail :: string

text \<open>
  \<^verbatim>\<open>NewSecurityHubFinding\<close> returns an empty finding beside the error; no caller
  reads it, and the model returns the error alone.
\<close>

definition NewSecurityHubFinding :: "encoding_json \<Rightarrow> RawMessage \<Rightarrow> err + SecurityHubV2Finding" where
  "NewSecurityHubFinding lib raw =
     (case decode_SecurityHubV2Finding lib raw of
        Inl e \<Rightarrow> Inl e
      | Inr shf \<Rightarrow> Inr shf)"

definition ParseEvent ::
  "encoding_json \<Rightarrow> App \<Rightarrow> SecurityHubEventInput \<Rightarrow> call list
     \<Rightarrow> (err + SecurityHubV2Finding) \<times> call list" where
  "ParseEvent lib a e tr =
     (if DetailType e \<noteq> ''Findings Imported V2''
      then (Inl (Newf (''unsupported event type: '' @ DetailType e @ '' (expected ''
                       @ [CHR 0x27] @ ''Findings Imported V2'' @ [CHR 0x27] @ '')'')), tr)
      else (case Unmarshal_EventDetail lib (Detail e) of
              Inl er \<Rightarrow> (Inl (Wrap er ''failed to unmarshal event detail''), tr)
            | Inr detail \<Rightarrow>
                if length (Findings detail) = 0
                then (Inl (Newf (''event contains no findings (event_id: '' @ EventID e @ '')'')), tr)
                else (NewSecurityHubFinding lib (Findings detail ! 0),
                      tr @ [CallNewSecurityHubFinding (Findings detail ! 0)])))"

definition App_CloseFinding ::
  "App \<Rightarrow> SecurityHubV2Finding \<Rightarrow> 32 word \<Rightarrow> string \<Rightarrow> call list \<Rightarrow> err option \<times> call list" where
  "App_CloseFinding a finding statusID comment tr =
     (case CloseFinding (FindingCloser a) finding statusID comment of
        Some e \<Rightarrow> (Some e, tr @ [CallCloseFinding finding statusID comment])
      | None \<Rightarrow> (None, tr @ [CallCloseFinding finding statusID comment]))"

definition SendNotification ::
  "App \<Rightarrow> SecurityHubV2Finding \<Rightarrow> call list \<Rightarrow> err option \<times> call list" where
  "SendNotification a finding tr =
     (case Notifier a of
        None \<Rightarrow> (Some (Panic ''nil pointer dereference''), tr)
      | Some n \<Rightarrow>
          (case Notify n finding of
             Some e \<Rightarrow> (Some e, tr @ [CallNotify finding])
           | None \<Rightarrow> (None, tr @ [CallNotify finding])))"

text \<open>
  \<^verbatim>\<open>Process\<close>. The matched rule is read through the pointer that
  \<^verbatim>\<open>FindMatchingRule\<close> returned; a \<^verbatim>\<open>nil\<close> pointer there would panic.
\<close>

definition Process ::
  "encoding_json \<Rightarrow> App \<Rightarrow> SecurityHubEventInput \<Rightarrow> call list \<Rightarrow> err option \<times> call list" where
  "Process lib a evt tr =
     (case ParseEvent lib a evt tr of
        (Inl e, tr1) \<Rightarrow> (Some e, tr1)
      | (Inr finding, tr1) \<Rightarrow>
          (case FindMatchingRule (FilterEngine a) finding of
             (ptr, matched) \<Rightarrow>
               (let tr2 = tr1 @ [CallFindMatchingRule finding] in
                if matched
                then (case ptr of
                        None \<Rightarrow> (Some (Panic ''nil pointer dereference''), tr2)
                      | Some i \<Rightarrow>
                          (let matchedRule = Rules (FilterEngine a) ! i in
                           case App_CloseFinding a finding (StatusID (Action matchedRule))
                                  (RuleAction.Comment (Action matchedRule)) tr2 of
                             (Some e, tr3) \<Rightarrow> (Some (Wrap e ''failed to auto-close finding''), tr3)
                           | (None, tr3) \<Rightarrow>
                               if \<not> SkipNotification matchedRule \<and> Notifier a \<noteq> None
                               then SendNotification a finding tr3
                               else (None, tr3)))
                else if Notifier a \<noteq> None \<and> IsAlertable finding
                then SendNotification a finding tr2
                else (None, tr2))))"

section \<open>A rule document that enables its rule\<close>

text \<open>
  A JSON value sets "enabled": true when it is an object with a member that is
  stored into the \<^verbatim>\<open>Enabled\<close> field and whose value is \<^verbatim>\<open>true\<close>.
\<close>

definition sets_enabled_true :: "json \<Rightarrow> bool" where
  "sets_enabled_true v =
     (case v of
        JObject ms \<Rightarrow> (\<exists>kv\<in>set ms. matchesField (fst kv) ''enabled'' \<and> snd kv = JBool True)
      | _ \<Rightarrow> False)"

section \<open>Sample values\<close>

text \<open>
  A finding with two resources, each carrying one tag, and rules built around it;
  the theorems below are evaluated on them.
\<close>

definition sample_resource_a :: OCSFResource where
  "sample_resource_a =
     \<lparr>Tags = [\<lparr>ResourceTag.Name = ''provider'', Value = ''a''\<rparr>], Type = ''AWS::EC2::Instance''\<rparr>"

definition sample_resource_b :: OCSFResource where
  "sample_resource_b =
     \<lparr>Tags = [\<lparr>ResourceTag.Name = ''team'', Value = ''b''\<rparr>], Type = ''AWS::S3::Bucket''\<rparr>"

definition sample_finding :: SecurityHubV2Finding where
  "sample_finding =
     \<lparr>Cloud = \<lparr>Account = \<lparr>Account.UID = ''222222222222''\<rparr>, Region = ''us-east-1''\<rparr>,
      Compliance = None,
      FindingInfo = \<lparr>Types = [''Execution:Runtime/NewBinaryExecuted'']\<rparr>,
      Metadata = \<lparr>Product = \<lparr>MetadataProduct.Name = ''GuardDuty''\<rparr>, UID = ''finding-1''\<rparr>,
      Resources = [sample_resource_a, sample_resource_b],
      Severity = ''High'',
      Status = ''New''\<rparr>"

definition sample_rule :: "string \<Rightarrow> bool \<Rightarrow> RuleFilters \<Rightarrow> AutoCloseRule" where
  "sample_rule name enabled filters =
     \<lparr>AutoCloseRule.Name = name, Enabled = enabled, Filters = filters,
      Action = \<lparr>StatusID = 5, Comment = ''Auto-closed''\<rparr>, SkipNotification = True\<rparr>"

definition sample_engine :: FilterEngine where
  "sample_engine = NewFilterEngine
     [sample_rule ''disabled'' False zero_RuleFilters,
      sample_rule ''other-account'' True (zero_RuleFilters\<lparr>Accounts := [''111111111111'']\<rparr>),
      sample_rule ''high'' True (zero_RuleFilters\<lparr>RuleFilters.Severity := [''High'']\<rparr>),
      sample_rule ''everything'' True zero_RuleFilters]"

definition sample_tags_split :: "ResourceTagFilter list" where
  "sample_tags_split =
     [\<lparr>ResourceTagFilter.Name = ''provider'', Value = ''a''\<rparr>,
      \<lparr>ResourceTagFilter.Name = ''team'', Value = ''b''\<rparr>]"

text \<open>
  A pipeline around the sample finding: an event that carries it, a JSON library
  that knows the documents used here, Security Hub clients that accept or reject
  the update, and notifiers that deliver or fail.
\<close>

definition sample_raw :: RawMessage where
  "sample_raw = JObject [(''status'', JString ''New''), (''severity'', JString ''High'')]"

definition doc_rule_high :: string where
  \<open>doc_rule_high = ''{"name":"high","Enabled":true,"filters":{"severity":["High"]},"action":{"status_id":5,"comment":"Auto-closed"},"skip_notification":true}''\<close>

definition tree_rule_high :: json where
  "tree_rule_high =
     JObject [(''name'', JString ''high''), (''Enabled'', JBool True),
              (''filters'', JObject [(''severity'', JArray [JString ''High''])]),
              (''action'', JObject [(''status_id'', JNumber (IntLit 5)),
                                    (''comment'', JString ''Auto-closed'')]),
              (''skip_notification'', JBool True)]"

definition doc_rule_implicit :: string where
  \<open>doc_rule_implicit = ''{"name":"implicit","filters":{"severity":["High"]},"enabled":null}''\<close>

definition tree_rule_implicit :: json where
  "tree_rule_implicit =
     JObject [(''name'', JString ''implicit''),
              (''filters'', JObject [(''severity'', JArray [JString ''High''])]),
              (''enabled'', JNull)]"

definition sample_lib :: encoding_json where
  \<open>sample_lib =
     \<lparr>parse_document =
        (\<lambda>s. if s = ''{"findings":[{"status":"New","severity":"High"}]}''
             then Some (JObject [(''findings'', JArray [sample_raw])])
             else if s = ''{"findings":[]}'' then Some (JObject [(''findings'', JArray [])])
             else if s = ''[]'' then Some (JArray [])
             else if s = doc_rule_high then Some tree_rule_high
             else if s = doc_rule_implicit then Some tree_rule_implicit
             else None),
      decode_SecurityHubV2Finding =
        (\<lambda>v. if v = sample_raw then Inr sample_finding
             else Inl (UnmarshalTypeError ''SecurityHubV2Finding''))\<rparr>\<close>

definition sample_event :: SecurityHubEventInput where
  \<open>sample_event =
     \<lparr>EventID = ''event-1'', DetailType = ''Findings Imported V2'',
      Detail = ''{"findings":[{"status":"New","severity":"High"}]}''\<rparr>\<close>

definition sample_config :: Config where
  "sample_config =
     \<lparr>DebugEnabled = False, AutoCloseRules = [], AutoCloseRulesS3Bucket = [],
      AutoCloseRulesS3Prefix = [], SlackEnabled = True, SlackToken = ''xoxb-token'',
      SlackChannel = ''C0123456789'', AwsConsoleURL = ''https://console.aws.amazon.com'',
      AwsAccessPortalURL = [], AwsAccessRoleName = [], AWSSecurityHubv2Region = []\<rparr>"

definition client_accepts :: securityhub_Client where
  "client_accepts = \<lparr>BatchUpdateFindingsV2 = (\<lambda>input. Inr \<lparr>UnprocessedFindings = []\<rparr>)\<rparr>"

definition client_rejects :: securityhub_Client where
  "client_rejects =
     \<lparr>BatchUpdateFindingsV2 =
        (\<lambda>input. Inr \<lparr>UnprocessedFindings =
                        [\<lparr>ErrorCode = ''FindingNotFound'', ErrorMessage = None\<rparr>]\<rparr>)\<rparr>"

definition notifier_fails :: Notifier where
  "notifier_fails = \<lparr>Notify = (\<lambda>finding. Some (External ''channel_not_found''))\<rparr>"

definition notifier_delivers :: Notifier where
  "notifier_delivers = \<lparr>Notify = (\<lambda>finding. None)\<rparr>"

definition sample_app :: "AutoCloseRule list \<Rightarrow> securityhub_Client \<Rightarrow> Notifier option \<Rightarrow> App" where
  "sample_app rules c n =
     \<lparr>Config = sample_config, FilterEngine = NewFilterEngine rules,
      FindingCloser = NewFindingCloser c, Notifier = n\<rparr>"

definition rule_high :: AutoCloseRule where
  "rule_high = sample_rule ''high'' True (zero_RuleFilters\<lparr>RuleFilters.Severity := [''High'']\<rparr>)"

definition rule_low :: AutoCloseRule where
  "rule_low = sample_rule ''low'' True (zero_RuleFilters\<lparr>RuleFilters.Severity := [''Low'']\<rparr>)"

text \<open>
  An object store in the manner of the loader's tests (keys with their contents, one
  page of listing), the environment of \<^verbatim>\<open>New\<close> around it, and rule documents.
\<close>

definition sample_s3 :: "(string \<times> string) list \<Rightarrow> S3Client" where
  "sample_s3 objects =
     \<lparr>ListObjectsV2 =
        (\<lambda>bucket prefix.
           [Inr \<lparr>Contents = map (\<lambda>kv. \<lparr>Key = Some (fst kv)\<rparr>)
                               (filter (\<lambda>kv. take (length prefix) (fst kv) = prefix) objects)\<rparr>]),
      GetObject =
        (\<lambda>bucket key. case map_of objects key of
                          None \<Rightarrow> Inl (External ''NoSuchKey'')
                        | Some content \<Rightarrow> Inr (Inr content))\<rparr>"

definition sample_env :: "(string \<times> string) list \<Rightarrow> environment" where
  "sample_env objects =
     \<lparr>LoadDefaultConfig =
        Inr \<lparr>securityhub_NewFromConfig = client_accepts, s3_NewFromConfig = sample_s3 objects\<rparr>,
      NewSlackNotifier =
        (\<lambda>token channel consoleURL accessPortalURL accessRoleName region. notifier_delivers)\<rparr>"

definition rule_implicit :: AutoCloseRule where
  "rule_implicit =
     zero_AutoCloseRule\<lparr>AutoCloseRule.Name := ''implicit'',
       Filters := zero_RuleFilters\<lparr>RuleFilters.Severity := [''High'']\<rparr>\<rparr>"

definition config_both :: Config where
  "config_both =
     sample_config\<lparr>AutoCloseRules := [rule_low, rule_implicit],
                    AutoCloseRulesS3Bucket := ''rules-bucket'',
                    AutoCloseRulesS3Prefix := ''rules/''\<rparr>"

definition blank_document :: string where
  "blank_document = [CHR 0x20, CHR 0x20, CHR 0x20, CHR 0x0A, CHR 0x09, CHR 0x20, CHR 0x20]"

definition loader_without_rules :: S3RulesLoader where
  "loader_without_rules =
     NewS3RulesLoader (sample_s3 [(''rules/README.md'', ''# Documentation''),
                                  (''rules/empty.json'', [CHR 0x20] @ ''[]'' @ [CHR 0x0A])])"

definition loader_malformed :: S3RulesLoader where
  "loader_malformed =
     NewS3RulesLoader (sample_s3 [(''rules/high.json'', doc_rule_high),
                                  (''rules/invalid.json'', ''{invalid json'')])"

section \<open>The matching engine: properties\<close>

text \<open>A rule applies to a finding when it is enabled and its filters match.\<close>

definition rule_applies :: "FilterEngine \<Rightarrow> SecurityHubV2Finding \<Rightarrow> AutoCloseRule \<Rightarrow> bool" where
  "rule_applies e f r \<longleftrightarrow> Enabled r \<and> matchesFilters e f (Filters r)"

lemmas sample_defs = sample_resource_a_def sample_resource_b_def sample_finding_def
  sample_rule_def zero_RuleFilters_def

lemma contains_iff: "contains xs x \<longleftrightarrow> x \<in> set xs"
  by (induction xs) auto

lemma matchesFindingTypes_inner_iff: "matchesFindingTypes_inner ts t \<longleftrightarrow> t \<in> set ts"
  by (induction ts) auto

lemma matchesFindingTypes_iff:
  "matchesFindingTypes f ts \<longleftrightarrow> set (Types (FindingInfo f)) \<inter> set ts \<noteq> {}"
  unfolding matchesFindingTypes_def
  by (induction ts) (auto simp: matchesFindingTypes_inner_iff)

lemma matchesResourceTypes_inner_iff:
  "matchesResourceTypes_inner r ts \<longleftrightarrow> OCSFResource.Type r \<in> set ts"
  by (induction ts) auto

lemma matchesResourceTypes_outer_iff:
  "matchesResourceTypes_outer rs ts \<longleftrightarrow> (\<exists>r\<in>set rs. OCSFResource.Type r \<in> set ts)"
  by (induction rs) (auto simp: matchesResourceTypes_inner_iff)

lemma resourceHasAllTags_found_iff:
  "resourceHasAllTags_found tags ft \<longleftrightarrow>
     (\<exists>t\<in>set tags. ResourceTag.Name t = ResourceTagFilter.Name ft
        \<and> ResourceTag.Value t = ResourceTagFilter.Value ft)"
  by (induction tags) auto

lemma resourceHasAllTags_iff:
  "resourceHasAllTags tags fts \<longleftrightarrow>
     (\<forall>ft\<in>set fts. \<exists>t\<in>set tags. ResourceTag.Name t = ResourceTagFilter.Name ft
        \<and> ResourceTag.Value t = ResourceTagFilter.Value ft)"
  by (induction fts) (auto simp: resourceHasAllTags_found_iff)

lemma matchesResourceTags_loop_iff:
  "matchesResourceTags_loop rs fts \<longleftrightarrow> (\<exists>r\<in>set rs. resourceHasAllTags (Tags r) fts)"
  by (induction rs) auto

lemma matchesResourceTags_iff:
  "matchesResourceTags f fts \<longleftrightarrow>
     (\<exists>r\<in>set (Resources f). \<forall>ft\<in>set fts. \<exists>t\<in>set (Tags r).
        ResourceTag.Name t = ResourceTagFilter.Name ft
        \<and> ResourceTag.Value t = ResourceTagFilter.Value ft)"
  unfolding matchesResourceTags_def
  by (cases "Resources f") (simp_all add: matchesResourceTags_loop_iff resourceHasAllTags_iff)

lemma loop_None:
  "FindMatchingRule_loop e f i rs = (None, False) \<longleftrightarrow> (\<forall>r\<in>set rs. \<not> rule_applies e f r)"
  by (induction rs arbitrary: i) (auto simp: rule_applies_def)

lemma loop_first:
  "k < length rs \<Longrightarrow> rule_applies e f (rs ! k) \<Longrightarrow> (\<forall>j<k. \<not> rule_applies e f (rs ! j))
     \<Longrightarrow> FindMatchingRule_loop e f i rs = (Some (i + k), True)"
proof (induction rs arbitrary: i k)
  case Nil
  then show ?case by simp
next
  case (Cons r rs)
  show ?case
  proof (cases k)
    case 0
    with Cons.prems show ?thesis by (simp add: rule_applies_def)
  next
    case (Suc k')
    from Cons.prems(3) Suc have nr: "\<not> rule_applies e f r" by auto
    have a: "k' < length rs" using Cons.prems(1) Suc by simp
    have b: "rule_applies e f (rs ! k')" using Cons.prems(2) Suc by simp
    have c: "\<forall>j<k'. \<not> rule_applies e f (rs ! j)"
    proof (intro allI impI)
      fix j assume "j < k'"
      then have "Suc j < k" using Suc by simp
      with Cons.prems(3) have "\<not> rule_applies e f ((r # rs) ! Suc j)" by blast
      then show "\<not> rule_applies e f (rs ! j)" by simp
    qed
    have "FindMatchingRule_loop e f (Suc i) rs = (Some (Suc i + k'), True)"
      by (rule Cons.IH[OF a b c])
    moreover have "FindMatchingRule_loop e f i (r # rs) = FindMatchingRule_loop e f (Suc i) rs"
      using nr by (simp add: rule_applies_def)
    ultimately show ?thesis using Suc by simp
  qed
qed

lemma first_index:
  assumes "\<exists>r\<in>set rs. P r"
  shows "\<exists>k<length rs. P (rs ! k) \<and> (\<forall>j<k. \<not> P (rs ! j))"
proof -
  from assms obtain n where n: "n < length rs" "P (rs ! n)"
    by (auto simp: in_set_conv_nth)
  define k where "k = (LEAST m. m < length rs \<and> P (rs ! m))"
  have k: "k < length rs \<and> P (rs ! k)"
    unfolding k_def by (rule LeastI[of "\<lambda>m. m < length rs \<and> P (rs ! m)" n]) (simp add: n)
  have "\<forall>j<k. \<not> P (rs ! j)"
  proof (intro allI impI notI)
    fix j assume j: "j < k" and "P (rs ! j)"
    then have "j < length rs \<and> P (rs ! j)" using k by simp
    then have "k \<le> j" unfolding k_def by (rule Least_le)
    with j show False by simp
  qed
  with k show ?thesis by blast
qed

lemma FindMatchingRule_cases:
  "(FindMatchingRule e f = (None, False) \<and> (\<forall>r\<in>set (Rules e). \<not> rule_applies e f r))
   \<or> (\<exists>k<length (Rules e). FindMatchingRule e f = (Some k, True)
         \<and> rule_applies e f (Rules e ! k) \<and> (\<forall>j<k. \<not> rule_applies e f (Rules e ! j)))"
proof (cases "\<exists>r\<in>set (Rules e). rule_applies e f r")
  case True
  from first_index[OF True] obtain k where k: "k < length (Rules e)"
    "rule_applies e f (Rules e ! k)" "\<forall>j<k. \<not> rule_applies e f (Rules e ! j)" by blast
  from loop_first[OF k, of 0] have "FindMatchingRule e f = (Some k, True)"
    by (simp add: FindMatchingRule_def)
  with k show ?thesis by blast
next
  case False
  then show ?thesis by (simp add: FindMatchingRule_def loop_None)
qed

text \<open>
  C1. \<^verbatim>\<open>FindMatchingRule\<close> returns the rule with the smallest index that is enabled
  and whose filters match, with \<^verbatim>\<open>matched = true\<close>; it reports no match when no
  enabled rule's filters match, in particular for an empty rule sequence and for one
  whose rules are all disabled; a later matching rule is never returned when an
  earlier enabled matching rule exists.
\<close>

theorem FindMatchingRule_first_enabled_match:
  "((\<exists>r\<in>set (Rules e). Enabled r \<and> matchesFilters e finding (Filters r)) \<longrightarrow>
      (\<exists>i<length (Rules e). FindMatchingRule e finding = (Some i, True)
         \<and> Enabled (Rules e ! i) \<and> matchesFilters e finding (Filters (Rules e ! i))
         \<and> (\<forall>j<i. \<not> (Enabled (Rules e ! j) \<and> matchesFilters e finding (Filters (Rules e ! j))))))
   \<and> ((\<forall>r\<in>set (Rules e). \<not> (Enabled r \<and> matchesFilters e finding (Filters r))) \<longrightarrow>
        FindMatchingRule e finding = (None, False))
   \<and> (Rules e = [] \<longrightarrow> FindMatchingRule e finding = (None, False))
   \<and> ((\<forall>r\<in>set (Rules e). \<not> Enabled r) \<longrightarrow> FindMatchingRule e finding = (None, False))
   \<and> (\<forall>i j. i < j \<and> j < length (Rules e) \<and> Enabled (Rules e ! i)
          \<and> matchesFilters e finding (Filters (Rules e ! i))
        \<longrightarrow> FindMatchingRule e finding \<noteq> (Some j, True))"
proof -
  note c = FindMatchingRule_cases[of e finding, unfolded rule_applies_def]
  have 1: "(\<exists>r\<in>set (Rules e). Enabled r \<and> matchesFilters e finding (Filters r)) \<longrightarrow>
      (\<exists>i<length (Rules e). FindMatchingRule e finding = (Some i, True)
         \<and> Enabled (Rules e ! i) \<and> matchesFilters e finding (Filters (Rules e ! i))
         \<and> (\<forall>j<i. \<not> (Enabled (Rules e ! j) \<and> matchesFilters e finding (Filters (Rules e ! j)))))"
    using c by blast
  have 2: "(\<forall>r\<in>set (Rules e). \<not> (Enabled r \<and> matchesFilters e finding (Filters r))) \<longrightarrow>
        FindMatchingRule e finding = (None, False)"
    using c by (metis nth_mem)
  have 3: "Rules e = [] \<longrightarrow> FindMatchingRule e finding = (None, False)"
    using 2 by simp
  have 4: "(\<forall>r\<in>set (Rules e). \<not> Enabled r) \<longrightarrow> FindMatchingRule e finding = (None, False)"
    using 2 by blast
  have 5: "\<forall>i j. i < j \<and> j < length (Rules e) \<and> Enabled (Rules e ! i)
          \<and> matchesFilters e finding (Filters (Rules e ! i))
        \<longrightarrow> FindMatchingRule e finding \<noteq> (Some j, True)"
  proof (intro allI impI notI)
    fix i j
    assume a: "i < j \<and> j < length (Rules e) \<and> Enabled (Rules e ! i)
          \<and> matchesFilters e finding (Filters (Rules e ! i))"
      and r: "FindMatchingRule e finding = (Some j, True)"
    from c r obtain k where "(Some k, True) = (Some j, True)"
      "\<forall>j<k. \<not> (Enabled (Rules e ! j) \<and> matchesFilters e finding (Filters (Rules e ! j)))"
      by auto
    then show False using a by auto
  qed
  from 1 2 3 4 5 show ?thesis by blast
qed

theorem FindMatchingRule_first_enabled_match_witness:
  "(\<exists>r\<in>set (Rules sample_engine). Enabled r \<and> matchesFilters sample_engine sample_finding (Filters r))
   \<and> FindMatchingRule sample_engine sample_finding = (Some 2, True)
   \<and> FindMatchingRule sample_engine sample_finding \<noteq> (Some 3, True)
   \<and> FindMatchingRule (NewFilterEngine []) sample_finding = (None, False)"
  using FindMatchingRule_first_enabled_match[of sample_engine sample_finding]
    FindMatchingRule_first_enabled_match[of "NewFilterEngine []" sample_finding]
  by (simp add: sample_engine_def NewFilterEngine_def FindMatchingRule_def matchesFilters_def sample_defs)

text \<open>
  C2. \<^verbatim>\<open>matchesFilters\<close> is the conjunction over the seven categories: it holds iff
  each non-empty category is satisfied by the finding. An empty category constrains
  nothing, so filters whose categories are all empty match every finding, and a
  finding that fails one non-empty category does not match whatever the others say.
\<close>

theorem matchesFilters_conjunction:
  "(matchesFilters e finding filters \<longleftrightarrow>
      (FindingTypes filters = []
         \<or> (\<exists>t\<in>set (Types (FindingInfo finding)). t \<in> set (FindingTypes filters)))
    \<and> (RuleFilters.Severity filters = []
         \<or> SecurityHubV2Finding.Severity finding \<in> set (RuleFilters.Severity filters))
    \<and> (ProductName filters = []
         \<or> MetadataProduct.Name (Product (Metadata finding)) \<in> set (ProductName filters))
    \<and> (ResourceTypes filters = []
         \<or> (\<exists>r\<in>set (Resources finding). OCSFResource.Type r \<in> set (ResourceTypes filters)))
    \<and> (ResourceTags filters = []
         \<or> (\<exists>r\<in>set (Resources finding). \<forall>ft\<in>set (ResourceTags filters). \<exists>t\<in>set (Tags r).
               ResourceTag.Name t = ResourceTagFilter.Name ft
               \<and> ResourceTag.Value t = ResourceTagFilter.Value ft))
    \<and> (Accounts filters = []
         \<or> Account.UID (Account (Cloud finding)) \<in> set (Accounts filters))
    \<and> (Regions filters = [] \<or> Region (Cloud finding) \<in> set (Regions filters)))
   \<and> (FindingTypes filters = [] \<and> RuleFilters.Severity filters = [] \<and> ProductName filters = []
        \<and> ResourceTypes filters = [] \<and> ResourceTags filters = [] \<and> Accounts filters = []
        \<and> Regions filters = [] \<longrightarrow> matchesFilters e finding filters)"
proof -
  have ft: "matchesFindingTypes finding (FindingTypes filters) \<longleftrightarrow>
      (\<exists>t\<in>set (Types (FindingInfo finding)). t \<in> set (FindingTypes filters))"
    unfolding matchesFindingTypes_iff by blast
  have unfold: "matchesFilters e finding filters \<longleftrightarrow>
      (FindingTypes filters = [] \<or> matchesFindingTypes finding (FindingTypes filters))
    \<and> (RuleFilters.Severity filters = []
         \<or> contains (RuleFilters.Severity filters) (SecurityHubV2Finding.Severity finding))
    \<and> (ProductName filters = []
         \<or> contains (ProductName filters) (MetadataProduct.Name (Product (Metadata finding))))
    \<and> (ResourceTypes filters = [] \<or> matchesResourceTypes finding (ResourceTypes filters))
    \<and> (ResourceTags filters = [] \<or> matchesResourceTags finding (ResourceTags filters))
    \<and> (Accounts filters = []
         \<or> contains (Accounts filters) (Account.UID (Account (Cloud finding))))
    \<and> (Regions filters = [] \<or> contains (Regions filters) (Region (Cloud finding)))"
    unfolding matchesFilters_def by simp
  show ?thesis
    unfolding unfold contains_iff ft matchesResourceTypes_def
      matchesResourceTypes_outer_iff matchesResourceTags_iff
    by simp
qed

theorem matchesFilters_conjunction_witness:
  "\<not> matchesFilters sample_engine sample_finding
       (zero_RuleFilters\<lparr>RuleFilters.Severity := [''High''], Accounts := [''111111111111'']\<rparr>)
   \<and> matchesFilters sample_engine sample_finding
       (zero_RuleFilters\<lparr>RuleFilters.Severity := [''High''], Accounts := [''222222222222'']\<rparr>)
   \<and> matchesFilters sample_engine sample_finding zero_RuleFilters"
  using matchesFilters_conjunction[of sample_engine sample_finding
          "zero_RuleFilters\<lparr>RuleFilters.Severity := [''High''], Accounts := [''111111111111'']\<rparr>"]
    matchesFilters_conjunction[of sample_engine sample_finding
          "zero_RuleFilters\<lparr>RuleFilters.Severity := [''High''], Accounts := [''222222222222'']\<rparr>"]
    matchesFilters_conjunction[of sample_engine sample_finding zero_RuleFilters]
  by (simp add: sample_defs)

text \<open>
  C3. For a non-empty list of required tags, \<^verbatim>\<open>matchesResourceTags\<close> holds iff one
  single resource of the finding carries every required (name, value) pair. When
  every resource lacks one of the required pairs (the pairs are spread over several
  resources) it fails, and it fails for a finding without resources.
\<close>

theorem matchesResourceTags_single_resource:
  "tagFilters \<noteq> [] \<Longrightarrow>
     (matchesResourceTags finding tagFilters \<longleftrightarrow>
        (\<exists>r\<in>set (Resources finding). \<forall>ft\<in>set tagFilters. \<exists>t\<in>set (Tags r).
           ResourceTag.Name t = ResourceTagFilter.Name ft
           \<and> ResourceTag.Value t = ResourceTagFilter.Value ft))
     \<and> ((\<forall>r\<in>set (Resources finding). \<exists>ft\<in>set tagFilters. \<forall>t\<in>set (Tags r).
            \<not> (ResourceTag.Name t = ResourceTagFilter.Name ft
                \<and> ResourceTag.Value t = ResourceTagFilter.Value ft))
          \<longrightarrow> \<not> matchesResourceTags finding tagFilters)
     \<and> (Resources finding = [] \<longrightarrow> \<not> matchesResourceTags finding tagFilters)"
  unfolding matchesResourceTags_iff by auto

theorem matchesResourceTags_single_resource_witness:
  "sample_tags_split \<noteq> []
   \<and> \<not> matchesResourceTags sample_finding sample_tags_split
   \<and> matchesResourceTags sample_finding [\<lparr>ResourceTagFilter.Name = ''team'', Value = ''b''\<rparr>]
   \<and> matchesResourceTags
        (sample_finding\<lparr>Resources :=
           [\<lparr>Tags = [\<lparr>ResourceTag.Name = ''team'', Value = ''b''\<rparr>,
                     \<lparr>ResourceTag.Name = ''provider'', Value = ''a''\<rparr>], Type = ''AWS::EC2::Instance''\<rparr>]\<rparr>)
        sample_tags_split
   \<and> \<not> matchesResourceTags (sample_finding\<lparr>Resources := []\<rparr>) sample_tags_split"
proof -
  have ne: "sample_tags_split \<noteq> []" by (simp add: sample_tags_split_def)
  have ne1: "[\<lparr>ResourceTagFilter.Name = ''team'', Value = ''b''\<rparr>] \<noteq> []" by simp
  show ?thesis
    using ne matchesResourceTags_single_resource[OF ne, of sample_finding]
      matchesResourceTags_single_resource[OF ne1, of sample_finding]
      matchesResourceTags_single_resource[OF ne, of "sample_finding\<lparr>Resources :=
           [\<lparr>Tags = [\<lparr>ResourceTag.Name = ''team'', Value = ''b''\<rparr>,
                     \<lparr>ResourceTag.Name = ''provider'', Value = ''a''\<rparr>], Type = ''AWS::EC2::Instance''\<rparr>]\<rparr>"]
      matchesResourceTags_single_resource[OF ne, of "sample_finding\<lparr>Resources := []\<rparr>"]
    by (simp add: sample_defs sample_tags_split_def)
qed

text \<open>
  C4. \<^verbatim>\<open>IsAlertable\<close> holds iff the status is "New" and either the compliance
  sub-record is present with status "Fail" or the severity is Critical, High or
  Medium.
\<close>

theorem IsAlertable_iff:
  "IsAlertable shf \<longleftrightarrow>
     SecurityHubV2Finding.Status shf = ''New''
     \<and> ((\<exists>c. Compliance shf = Some c \<and> OCSFCompliance.Status c = ''Fail'')
         \<or> SecurityHubV2Finding.Severity shf = ''Critical''
         \<or> SecurityHubV2Finding.Severity shf = ''High''
         \<or> SecurityHubV2Finding.Severity shf = ''Medium'')"
  by (cases "Compliance shf") (auto simp: IsAlertable_def alertSeverities_def)

theorem IsAlertable_iff_witness:
  "IsAlertable (sample_finding\<lparr>SecurityHubV2Finding.Severity := ''Medium''\<rparr>)
   \<and> \<not> IsAlertable (sample_finding\<lparr>SecurityHubV2Finding.Severity := ''Low''\<rparr>)
   \<and> IsAlertable (sample_finding\<lparr>SecurityHubV2Finding.Severity := ''Low'',
                                  Compliance := Some \<lparr>OCSFCompliance.Status = ''Fail''\<rparr>\<rparr>)
   \<and> \<not> IsAlertable (sample_finding\<lparr>SecurityHubV2Finding.Severity := ''Critical'',
                                    SecurityHubV2Finding.Status := ''Resolved''\<rparr>)"
  using IsAlertable_iff[of "sample_finding\<lparr>SecurityHubV2Finding.Severity := ''Medium''\<rparr>"]
    IsAlertable_iff[of "sample_finding\<lparr>SecurityHubV2Finding.Severity := ''Low''\<rparr>"]
    IsAlertable_iff[of "sample_finding\<lparr>SecurityHubV2Finding.Severity := ''Low'',
                                  Compliance := Some \<lparr>OCSFCompliance.Status = ''Fail''\<rparr>\<rparr>"]
    IsAlertable_iff[of "sample_finding\<lparr>SecurityHubV2Finding.Severity := ''Critical'',
                                    SecurityHubV2Finding.Status := ''Resolved''\<rparr>"]
  by (simp add: sample_defs)

section \<open>The decision pipeline: properties\<close>

lemmas pipeline_defs = sample_app_def sample_config_def client_accepts_def client_rejects_def
  notifier_fails_def notifier_delivers_def rule_high_def rule_low_def sample_lib_def
  sample_event_def NewFilterEngine_def NewFindingCloser_def

lemma sample_ParseEvent:
  "ParseEvent sample_lib a sample_event [] =
     (Inr sample_finding, [CallNewSecurityHubFinding sample_raw])"
  by (simp add: ParseEvent_def Unmarshal_EventDetail_def decode_struct_def field_EventDetail_def
      matchesField_def store_def decode_slice_def decode_RawMessage_def
      NewSecurityHubFinding_def sample_lib_def sample_event_def)

lemma sample_match_high:
  "FindMatchingRule (NewFilterEngine (rule_low # r # rs)) sample_finding =
     (if Enabled r \<and> matchesFilters (NewFilterEngine (rule_low # r # rs)) sample_finding (Filters r)
      then (Some 1, True)
      else FindMatchingRule_loop (NewFilterEngine (rule_low # r # rs)) sample_finding 2 rs)"
  by (simp add: FindMatchingRule_def NewFilterEngine_def rule_low_def matchesFilters_def
      sample_defs numeral_2_eq_2)

lemma ParseEvent_trace:
  "ParseEvent lib a evt tr = (Inr finding, tr1) \<Longrightarrow>
     \<exists>raw. tr1 = tr @ [CallNewSecurityHubFinding raw]"
  by (auto simp: ParseEvent_def Let_def split: if_splits sum.splits)

text \<open>
  C5. When a rule matches, \<^verbatim>\<open>Process\<close> calls the closer with the matched rule's
  status id and comment. If the close fails, \<^verbatim>\<open>Process\<close> returns that error wrapped
  and the notifier is not called. If the close succeeds, the notifier is called iff
  the rule's skip-notification flag is false and a notifier is configured; what the
  notifier answers, a failure included, is the result of \<^verbatim>\<open>Process\<close>, and the
  trace shows the close before it and no call after it.
\<close>

theorem Process_matched:
  assumes "ParseEvent lib a evt tr = (Inr finding, tr1)"
    and "FindMatchingRule (FilterEngine a) finding = (Some i, True)"
  shows "(\<exists>raw. tr1 = tr @ [CallNewSecurityHubFinding raw])
    \<and> (\<forall>e. CloseFinding (FindingCloser a) finding
              (StatusID (Action (Rules (FilterEngine a) ! i)))
              (RuleAction.Comment (Action (Rules (FilterEngine a) ! i))) = Some e
          \<longrightarrow> Process lib a evt tr =
                (Some (Wrap e ''failed to auto-close finding''),
                 tr1 @ [CallFindMatchingRule finding,
                        CallCloseFinding finding (StatusID (Action (Rules (FilterEngine a) ! i)))
                          (RuleAction.Comment (Action (Rules (FilterEngine a) ! i)))]))
    \<and> (CloseFinding (FindingCloser a) finding
              (StatusID (Action (Rules (FilterEngine a) ! i)))
              (RuleAction.Comment (Action (Rules (FilterEngine a) ! i))) = None
          \<longrightarrow> (\<forall>n. \<not> SkipNotification (Rules (FilterEngine a) ! i) \<and> Notifier a = Some n
                   \<longrightarrow> Process lib a evt tr =
                         (Notify n finding,
                          tr1 @ [CallFindMatchingRule finding,
                                 CallCloseFinding finding
                                   (StatusID (Action (Rules (FilterEngine a) ! i)))
                                   (RuleAction.Comment (Action (Rules (FilterEngine a) ! i))),
                                 CallNotify finding]))
              \<and> (SkipNotification (Rules (FilterEngine a) ! i) \<or> Notifier a = None
                   \<longrightarrow> Process lib a evt tr =
                         (None,
                          tr1 @ [CallFindMatchingRule finding,
                                 CallCloseFinding finding
                                   (StatusID (Action (Rules (FilterEngine a) ! i)))
                                   (RuleAction.Comment (Action (Rules (FilterEngine a) ! i)))])))"
proof -
  have t: "\<exists>raw. tr1 = tr @ [CallNewSecurityHubFinding raw]"
    using assms(1) by (rule ParseEvent_trace)
  have f: "\<forall>e. CloseFinding (FindingCloser a) finding
              (StatusID (Action (Rules (FilterEngine a) ! i)))
              (RuleAction.Comment (Action (Rules (FilterEngine a) ! i))) = Some e
          \<longrightarrow> Process lib a evt tr =
                (Some (Wrap e ''failed to auto-close finding''),
                 tr1 @ [CallFindMatchingRule finding,
                        CallCloseFinding finding (StatusID (Action (Rules (FilterEngine a) ! i)))
                          (RuleAction.Comment (Action (Rules (FilterEngine a) ! i)))])"
    using assms by (simp add: Process_def App_CloseFinding_def Let_def)
  have s: "CloseFinding (FindingCloser a) finding
              (StatusID (Action (Rules (FilterEngine a) ! i)))
              (RuleAction.Comment (Action (Rules (FilterEngine a) ! i))) = None
          \<longrightarrow> (\<forall>n. \<not> SkipNotification (Rules (FilterEngine a) ! i) \<and> Notifier a = Some n
                   \<longrightarrow> Process lib a evt tr =
                         (Notify n finding,
                          tr1 @ [CallFindMatchingRule finding,
                                 CallCloseFinding finding
                                   (StatusID (Action (Rules (FilterEngine a) ! i)))
                                   (RuleAction.Comment (Action (Rules (FilterEngine a) ! i))),
                                 CallNotify finding]))
              \<and> (SkipNotification (Rules (FilterEngine a) ! i) \<or> Notifier a = None
                   \<longrightarrow> Process lib a evt tr =
                         (None,
                          tr1 @ [CallFindMatchingRule finding,
                                 CallCloseFinding finding
                                   (StatusID (Action (Rules (FilterEngine a) ! i)))
                                   (RuleAction.Comment (Action (Rules (FilterEngine a) ! i)))]))"
    using assms
    by (auto simp: Process_def App_CloseFinding_def SendNotification_def Let_def
        split: option.splits)
  from t f s show ?thesis by blast
qed

theorem Process_matched_witness:
  "Process sample_lib (sample_app [rule_low, rule_high] client_rejects (Some notifier_delivers))
       sample_event [] =
     (Some (Wrap (Newf ''failed to update finding finding-1: FindingNotFound - '')
                 ''failed to auto-close finding''),
      [CallNewSecurityHubFinding sample_raw, CallFindMatchingRule sample_finding,
       CallCloseFinding sample_finding 5 ''Auto-closed''])
   \<and> Process sample_lib
         (sample_app [rule_low, rule_high\<lparr>SkipNotification := False\<rparr>] client_accepts
            (Some notifier_fails))
         sample_event [] =
       (Some (External ''channel_not_found''),
        [CallNewSecurityHubFinding sample_raw, CallFindMatchingRule sample_finding,
         CallCloseFinding sample_finding 5 ''Auto-closed'', CallNotify sample_finding])
   \<and> Process sample_lib (sample_app [rule_low, rule_high] client_accepts (Some notifier_fails))
         sample_event [] =
       (None,
        [CallNewSecurityHubFinding sample_raw, CallFindMatchingRule sample_finding,
         CallCloseFinding sample_finding 5 ''Auto-closed''])"
proof -
  have m1: "FindMatchingRule
              (FilterEngine (sample_app [rule_low, rule_high] c n)) sample_finding = (Some 1, True)"
    for c n
    by (simp add: sample_app_def sample_match_high)
      (simp add: rule_high_def matchesFilters_def sample_defs)
  have m2: "FindMatchingRule
              (FilterEngine (sample_app [rule_low, rule_high\<lparr>SkipNotification := False\<rparr>] c n))
              sample_finding = (Some 1, True)"
    for c n
    by (simp add: sample_app_def sample_match_high)
      (simp add: rule_high_def matchesFilters_def sample_defs)
  show ?thesis
    using Process_matched[OF sample_ParseEvent m1[of client_rejects "Some notifier_delivers"]]
      Process_matched[OF sample_ParseEvent m2[of client_accepts "Some notifier_fails"]]
      Process_matched[OF sample_ParseEvent m1[of client_accepts "Some notifier_fails"]]
    by (simp add: pipeline_defs CloseFinding_def ToString_def sample_defs)
qed

text \<open>
  C6. When no rule matches, the closer is never called; the notifier is called
  exactly once iff a notifier is configured and the finding is alertable; otherwise
  no collaborator is called and \<^verbatim>\<open>Process\<close> returns success.
\<close>

theorem Process_unmatched:
  assumes "ParseEvent lib a evt tr = (Inr finding, tr1)"
    and "FindMatchingRule (FilterEngine a) finding = (ptr, False)"
  shows "(\<exists>raw. tr1 = tr @ [CallNewSecurityHubFinding raw])
    \<and> (\<forall>n. Notifier a = Some n \<and> IsAlertable finding
          \<longrightarrow> Process lib a evt tr =
                (Notify n finding, tr1 @ [CallFindMatchingRule finding, CallNotify finding]))
    \<and> (Notifier a = None \<or> \<not> IsAlertable finding
          \<longrightarrow> Process lib a evt tr = (None, tr1 @ [CallFindMatchingRule finding]))"
proof -
  have t: "\<exists>raw. tr1 = tr @ [CallNewSecurityHubFinding raw]"
    using assms(1) by (rule ParseEvent_trace)
  have n: "\<forall>n. Notifier a = Some n \<and> IsAlertable finding
          \<longrightarrow> Process lib a evt tr =
                (Notify n finding, tr1 @ [CallFindMatchingRule finding, CallNotify finding])"
    using assms
    by (auto simp: Process_def SendNotification_def Let_def split: option.splits)
  have q: "Notifier a = None \<or> \<not> IsAlertable finding
          \<longrightarrow> Process lib a evt tr = (None, tr1 @ [CallFindMatchingRule finding])"
    using assms by (auto simp: Process_def Let_def)
  from t n q show ?thesis by blast
qed

theorem Process_unmatched_witness:
  "Process sample_lib (sample_app [rule_low] client_accepts (Some notifier_delivers))
       sample_event [] =
     (None,
      [CallNewSecurityHubFinding sample_raw, CallFindMatchingRule sample_finding,
       CallNotify sample_finding])
   \<and> Process sample_lib (sample_app [rule_low] client_accepts None) sample_event [] =
       (None, [CallNewSecurityHubFinding sample_raw, CallFindMatchingRule sample_finding])"
proof -
  have m: "FindMatchingRule (FilterEngine (sample_app [rule_low] c n)) sample_finding
             = (None, False)" for c n
    by (simp add: sample_app_def NewFilterEngine_def FindMatchingRule_def rule_low_def
        matchesFilters_def sample_defs)
  have al: "IsAlertable sample_finding"
    by (simp add: IsAlertable_def alertSeverities_def sample_defs)
  show ?thesis
    using al Process_unmatched[OF sample_ParseEvent m[of client_accepts "Some notifier_delivers"]]
      Process_unmatched[OF sample_ParseEvent m[of client_accepts None]]
    by (simp add: sample_app_def notifier_delivers_def)
qed

text \<open>
  C7. For every event whose detail type is not "Findings Imported V2",
  \<^verbatim>\<open>Process\<close> fails with the unsupported-event-type error and calls neither the
  finding parser nor the matching engine, the closer or the notifier (the trace is
  unchanged). For every event with that detail type whose decoded detail has no
  findings, it fails with the empty-findings error, again with the trace unchanged.
\<close>

theorem Process_rejects_event:
  "(DetailType evt \<noteq> ''Findings Imported V2'' \<longrightarrow>
      Process lib a evt tr =
        (Some (Newf (''unsupported event type: '' @ DetailType evt @ '' (expected ''
                     @ [CHR 0x27] @ ''Findings Imported V2'' @ [CHR 0x27] @ '')'')), tr))
   \<and> (DetailType evt = ''Findings Imported V2''
        \<and> Unmarshal_EventDetail lib (Detail evt) = Inr detail \<and> Findings detail = []
      \<longrightarrow> Process lib a evt tr =
            (Some (Newf (''event contains no findings (event_id: '' @ EventID evt @ '')'')), tr))"
  by (simp add: Process_def ParseEvent_def)

theorem Process_rejects_event_witness:
  \<open>Process sample_lib (sample_app [rule_high] client_accepts (Some notifier_delivers))
       (sample_event\<lparr>DetailType := ''Something Else''\<rparr>) [] =
     (Some (Newf (''unsupported event type: Something Else (expected '' @ [CHR 0x27]
                  @ ''Findings Imported V2'' @ [CHR 0x27] @ '')'')), [])
   \<and> Process sample_lib (sample_app [rule_high] client_accepts (Some notifier_delivers))
         (sample_event\<lparr>Detail := ''{"findings":[]}''\<rparr>) [] =
       (Some (Newf ''event contains no findings (event_id: event-1)''), [])\<close>
proof -
  have d: \<open>Unmarshal_EventDetail sample_lib (Detail (sample_event\<lparr>Detail := ''{"findings":[]}''\<rparr>))
             = Inr \<lparr>Findings = []\<rparr>\<close>
    by (simp add: Unmarshal_EventDetail_def decode_struct_def field_EventDetail_def
        matchesField_def store_def decode_slice_def sample_lib_def)
  show ?thesis
    using d
      Process_rejects_event[where evt = "sample_event\<lparr>DetailType := ''Something Else''\<rparr>"
        and lib = sample_lib and tr = "[]"
        and a = "sample_app [rule_high] client_accepts (Some notifier_delivers)"]
      Process_rejects_event[where evt = \<open>sample_event\<lparr>Detail := ''{"findings":[]}''\<rparr>\<close>
        and lib = sample_lib and tr = "[]" and detail = "\<lparr>Findings = []\<rparr>"
        and a = "sample_app [rule_high] client_accepts (Some notifier_delivers)"]
    by (simp add: sample_event_def)
qed

section \<open>Rule loading: properties\<close>

lemma trimLeft_asciiSpace: "\<forall>c\<in>set s. asciiSpace c \<Longrightarrow> trimLeft s = []"
  by (induction s rule: trimLeft.induct) auto

lemma TrimSpace_asciiSpace: "\<forall>c\<in>set s. asciiSpace c \<Longrightarrow> TrimSpace s = []"
  by (simp add: TrimSpace_def trimRight_def trimLeft_asciiSpace)

lemma parseRules_blank: "TrimSpace data = [] \<Longrightarrow> parseRules lib data = Inr []"
  by (simp add: parseRules_def)

lemma parseRules_array:
  "TrimSpace data = CHR ''['' # rest \<Longrightarrow>
     parseRules lib data =
       (case Unmarshal_rules lib (CHR ''['' # rest) of
          Inl e \<Rightarrow> Inl (Wrap e ''failed to parse rules array'')
        | Inr rules \<Rightarrow> Inr rules)"
  by (simp add: parseRules_def)

lemma parseRules_single:
  "TrimSpace data = c # rest \<Longrightarrow> c \<noteq> CHR ''['' \<Longrightarrow>
     parseRules lib data =
       (case Unmarshal_rule lib (c # rest) of
          Inl e \<Rightarrow> Inl (Wrap e ''failed to parse single rule'')
        | Inr rule \<Rightarrow> Inr [rule])"
  by (simp add: parseRules_def)

lemma parseRules_syntax_error:
  "TrimSpace data \<noteq> [] \<Longrightarrow> parse_document lib (TrimSpace data) = None \<Longrightarrow>
     \<exists>m. parseRules lib data = Inl (Wrap SyntaxError m)"
  by (cases "TrimSpace data")
    (auto simp: parseRules_def Let_def Unmarshal_rules_def Unmarshal_rule_def)

lemma loadRulesFromObject_malformed:
  "GetObject (S3RulesLoader.client l) bucket key = Inr (Inr data) \<Longrightarrow>
     loadRulesFromObject lib l bucket key = parseRules lib data"
  by (simp add: loadRulesFromObject_def)

lemma LoadRules_loop_abort:
  "key \<in> set keys \<Longrightarrow> HasSuffix key ''.json'' \<Longrightarrow>
   loadRulesFromObject lib l bucket key = Inl e \<Longrightarrow>
     \<exists>e'. LoadRules_loop lib l bucket keys acc = Inl e'"
proof (induction keys arbitrary: acc)
  case Nil
  then show ?case by simp
next
  case (Cons k ks)
  show ?case
  proof (cases "k = key")
    case True
    with Cons.prems show ?thesis by simp
  next
    case False
    with Cons.prems have "key \<in> set ks" by simp
    from Cons.IH[OF this Cons.prems(2,3)]
    have ih: "\<And>acc. \<exists>e'. LoadRules_loop lib l bucket ks acc = Inl e'" by blast
    show ?thesis
      using ih by (cases "loadRulesFromObject lib l bucket k") auto
  qed
qed

lemma LoadRules_loop_first_failure:
  "\<forall>k\<in>set ks1. HasSuffix k ''.json'' \<longrightarrow> (\<exists>rs. loadRulesFromObject lib l bucket k = Inr rs) \<Longrightarrow>
   HasSuffix key ''.json'' \<Longrightarrow> loadRulesFromObject lib l bucket key = Inl e \<Longrightarrow>
     LoadRules_loop lib l bucket (ks1 @ key # ks2) acc =
       Inl (Wrap e (''failed to load rules from s3://'' @ bucket @ ''/'' @ key))"
proof (induction ks1 arbitrary: acc)
  case Nil
  then show ?case by simp
next
  case (Cons k ks)
  then show ?case by (cases "HasSuffix k ''.json''") auto
qed

lemma LoadRules_abort:
  assumes "listObjects l bucket prefix = Inr keys" and "key \<in> set keys"
    and "HasSuffix key ''.json''" and "loadRulesFromObject lib l bucket key = Inl e"
  shows "\<exists>e'. LoadRules lib l bucket prefix = Inl e'"
proof -
  from assms(2) have ne: "keys \<noteq> []" by auto
  from LoadRules_loop_abort[OF assms(2,3,4)]
  obtain e' where "LoadRules_loop lib l bucket keys [] = Inl e'" by blast
  then show ?thesis using assms(1) ne by (simp add: LoadRules_def)
qed

lemma LoadRules_nonempty: "LoadRules lib l bucket prefix \<noteq> Inr []"
  by (auto simp: LoadRules_def split: sum.splits)

lemma decode_rule_implicit:
  "decode_AutoCloseRule tree_rule_implicit zero_AutoCloseRule = Inr rule_implicit"
  by code_simp

lemma decode_rule_high: "decode_AutoCloseRule tree_rule_high zero_AutoCloseRule = Inr rule_high"
  by code_simp

lemma implicit_not_enabled: "\<not> sets_enabled_true tree_rule_implicit"
  by code_simp

lemma parseRules_doc_rule_high: "parseRules sample_lib doc_rule_high = Inr [rule_high]"
  by code_simp

lemma LoadRules_high:
  "LoadRules sample_lib (NewS3RulesLoader (sample_s3 [(''rules/high.json'', doc_rule_high)]))
     ''rules-bucket'' ''rules/'' = Inr [rule_high]"
  using parseRules_doc_rule_high
  by (simp add: LoadRules_def listObjects_def NewS3RulesLoader_def sample_s3_def HasSuffix_def
      loadRulesFromObject_def)

lemma blank_document_spaces: "\<forall>c\<in>set blank_document. asciiSpace c"
  by (simp add: blank_document_def asciiSpace_def)

lemma listing_without_rules:
  "listObjects loader_without_rules ''rules-bucket'' ''rules/''
     = Inr [''rules/README.md'', ''rules/empty.json'']"
  by (simp add: listObjects_def loader_without_rules_def NewS3RulesLoader_def sample_s3_def)

lemma parseRules_empty_array:
  "parseRules sample_lib ([CHR 0x20] @ ''[]'' @ [CHR 0x0A]) = Inr []"
  by code_simp

lemma scan_without_rules:
  "LoadRules_loop sample_lib loader_without_rules ''rules-bucket''
     [''rules/README.md'', ''rules/empty.json''] [] = Inr []"
  using parseRules_empty_array
  by (simp add: HasSuffix_def loadRulesFromObject_def loader_without_rules_def
      NewS3RulesLoader_def sample_s3_def)

lemma listing_malformed:
  "listObjects loader_malformed ''rules-bucket'' ''rules/''
     = Inr ([''rules/high.json''] @ ''rules/invalid.json'' # [])"
  by (simp add: listObjects_def loader_malformed_def NewS3RulesLoader_def sample_s3_def)

lemma parseRules_invalid:
  "parseRules sample_lib ''{invalid json''
     = Inl (Wrap SyntaxError ''failed to parse single rule'')"
  by code_simp

lemma malformed_facts:
  "\<forall>k\<in>set [''rules/high.json'']. HasSuffix k ''.json'' \<longrightarrow>
      (\<exists>rs. loadRulesFromObject sample_lib loader_malformed ''rules-bucket'' k = Inr rs)"
  "HasSuffix ''rules/invalid.json'' ''.json''"
  "GetObject (S3RulesLoader.client loader_malformed) ''rules-bucket'' ''rules/invalid.json''
     = Inr (Inr ''{invalid json'')"
  using parseRules_doc_rule_high
  by (simp_all add: HasSuffix_def loadRulesFromObject_def loader_malformed_def
      NewS3RulesLoader_def sample_s3_def)

text \<open>
  C8, as stated, fails where the listing is empty: the scan of the (no) keys yields
  zero rules, and \<^verbatim>\<open>LoadRules\<close> returns the "no objects found" error of its guard
  on the listing, not the "no rules loaded" error.
\<close>

theorem LoadRules_empty_listing_counterexample:
  "listObjects (NewS3RulesLoader (sample_s3 [])) ''rules-bucket'' ''rules/'' = Inr []
   \<and> LoadRules_loop sample_lib (NewS3RulesLoader (sample_s3 [])) ''rules-bucket'' [] [] = Inr []
   \<and> LoadRules sample_lib (NewS3RulesLoader (sample_s3 [])) ''rules-bucket'' ''rules/''
       = Inl (Newf ''no objects found in s3://rules-bucket/rules/'')
   \<and> LoadRules sample_lib (NewS3RulesLoader (sample_s3 [])) ''rules-bucket'' ''rules/''
       \<noteq> Inl (Newf ''no rules loaded from s3://rules-bucket/rules/'')"
  by (simp add: LoadRules_def listObjects_def NewS3RulesLoader_def sample_s3_def)

text \<open>
  C8, amended. \<^verbatim>\<open>parseRules\<close> trims the content; empty or whitespace-only content
  gives zero rules and no error; otherwise the content is decoded as an array of
  rules iff its first remaining character is "[", and else as a single rule;
  a document that fails to decode gives a parse error, which makes \<^verbatim>\<open>LoadRules\<close>
  fail (with that error wrapped, when it is the first failure of the scan). When
  the listing has at least one key and the scan of the keys ending in ".json" yields
  zero rules, \<^verbatim>\<open>LoadRules\<close> returns the "no rules loaded" error; when the listing is
  empty it returns the "no objects found" error; it never returns an empty list.
\<close>

theorem LoadRules_parse_and_errors:
  "(TrimSpace data = [] \<longrightarrow> parseRules lib data = Inr [])
   \<and> ((\<forall>c\<in>set data. asciiSpace c) \<longrightarrow> parseRules lib data = Inr [])
   \<and> (\<forall>c rest. TrimSpace data = c # rest \<longrightarrow>
         (c = CHR ''['' \<longrightarrow>
            parseRules lib data =
              (case Unmarshal_rules lib (c # rest) of
                 Inl e \<Rightarrow> Inl (Wrap e ''failed to parse rules array'')
               | Inr rules \<Rightarrow> Inr rules))
         \<and> (c \<noteq> CHR ''['' \<longrightarrow>
              parseRules lib data =
                (case Unmarshal_rule lib (c # rest) of
                   Inl e \<Rightarrow> Inl (Wrap e ''failed to parse single rule'')
                 | Inr rule \<Rightarrow> Inr [rule])))
   \<and> (TrimSpace data \<noteq> [] \<and> parse_document lib (TrimSpace data) = None \<longrightarrow>
         (\<exists>m. parseRules lib data = Inl (Wrap SyntaxError m)))
   \<and> (\<forall>keys key e. listObjects l bucket prefix = Inr keys \<and> key \<in> set keys
          \<and> HasSuffix key ''.json''
          \<and> GetObject (S3RulesLoader.client l) bucket key = Inr (Inr data)
          \<and> parseRules lib data = Inl e
        \<longrightarrow> (\<exists>e'. LoadRules lib l bucket prefix = Inl e'))
   \<and> (\<forall>ks1 key ks2 e. listObjects l bucket prefix = Inr (ks1 @ key # ks2)
          \<and> (\<forall>k\<in>set ks1. HasSuffix k ''.json'' \<longrightarrow>
                (\<exists>rs. loadRulesFromObject lib l bucket k = Inr rs))
          \<and> HasSuffix key ''.json''
          \<and> GetObject (S3RulesLoader.client l) bucket key = Inr (Inr data)
          \<and> parseRules lib data = Inl e
        \<longrightarrow> LoadRules lib l bucket prefix =
              Inl (Wrap e (''failed to load rules from s3://'' @ bucket @ ''/'' @ key)))
   \<and> (\<forall>keys. listObjects l bucket prefix = Inr keys \<and> keys \<noteq> []
          \<and> LoadRules_loop lib l bucket keys [] = Inr []
        \<longrightarrow> LoadRules lib l bucket prefix =
              Inl (Newf (''no rules loaded from s3://'' @ bucket @ ''/'' @ prefix)))
   \<and> (listObjects l bucket prefix = Inr [] \<longrightarrow>
         LoadRules lib l bucket prefix =
           Inl (Newf (''no objects found in s3://'' @ bucket @ ''/'' @ prefix)))
   \<and> LoadRules lib l bucket prefix \<noteq> Inr []"
proof -
  have 1: "TrimSpace data = [] \<longrightarrow> parseRules lib data = Inr []"
    by (simp add: parseRules_blank)
  have 2: "(\<forall>c\<in>set data. asciiSpace c) \<longrightarrow> parseRules lib data = Inr []"
    by (simp add: parseRules_blank TrimSpace_asciiSpace)
  have 3: "\<forall>c rest. TrimSpace data = c # rest \<longrightarrow>
         (c = CHR ''['' \<longrightarrow>
            parseRules lib data =
              (case Unmarshal_rules lib (c # rest) of
                 Inl e \<Rightarrow> Inl (Wrap e ''failed to parse rules array'')
               | Inr rules \<Rightarrow> Inr rules))
         \<and> (c \<noteq> CHR ''['' \<longrightarrow>
              parseRules lib data =
                (case Unmarshal_rule lib (c # rest) of
                   Inl e \<Rightarrow> Inl (Wrap e ''failed to parse single rule'')
                 | Inr rule \<Rightarrow> Inr [rule]))"
    using parseRules_array[of data _ lib] parseRules_single[of data _ _ lib] by blast
  have 4: "TrimSpace data \<noteq> [] \<and> parse_document lib (TrimSpace data) = None \<longrightarrow>
         (\<exists>m. parseRules lib data = Inl (Wrap SyntaxError m))"
    using parseRules_syntax_error by blast
  have 5: "\<forall>keys key e. listObjects l bucket prefix = Inr keys \<and> key \<in> set keys
          \<and> HasSuffix key ''.json''
          \<and> GetObject (S3RulesLoader.client l) bucket key = Inr (Inr data)
          \<and> parseRules lib data = Inl e
        \<longrightarrow> (\<exists>e'. LoadRules lib l bucket prefix = Inl e')"
    using LoadRules_abort[of l bucket prefix _ _ lib] loadRulesFromObject_malformed[of l bucket _ data lib]
    by metis
  have 6: "\<forall>ks1 key ks2 e. listObjects l bucket prefix = Inr (ks1 @ key # ks2)
          \<and> (\<forall>k\<in>set ks1. HasSuffix k ''.json'' \<longrightarrow>
                (\<exists>rs. loadRulesFromObject lib l bucket k = Inr rs))
          \<and> HasSuffix key ''.json''
          \<and> GetObject (S3RulesLoader.client l) bucket key = Inr (Inr data)
          \<and> parseRules lib data = Inl e
        \<longrightarrow> LoadRules lib l bucket prefix =
              Inl (Wrap e (''failed to load rules from s3://'' @ bucket @ ''/'' @ key))"
  proof (intro allI impI)
    fix ks1 key ks2 e
    assume a: "listObjects l bucket prefix = Inr (ks1 @ key # ks2)
          \<and> (\<forall>k\<in>set ks1. HasSuffix k ''.json'' \<longrightarrow>
                (\<exists>rs. loadRulesFromObject lib l bucket k = Inr rs))
          \<and> HasSuffix key ''.json''
          \<and> GetObject (S3RulesLoader.client l) bucket key = Inr (Inr data)
          \<and> parseRules lib data = Inl e"
    then have f: "loadRulesFromObject lib l bucket key = Inl e"
      by (simp add: loadRulesFromObject_malformed)
    from a have p: "\<forall>k\<in>set ks1. HasSuffix k ''.json'' \<longrightarrow>
                (\<exists>rs. loadRulesFromObject lib l bucket k = Inr rs)" by blast
    from a have h: "HasSuffix key ''.json''" by blast
    have "LoadRules_loop lib l bucket (ks1 @ key # ks2) [] =
            Inl (Wrap e (''failed to load rules from s3://'' @ bucket @ ''/'' @ key))"
      by (rule LoadRules_loop_first_failure[OF p h f])
    with a show "LoadRules lib l bucket prefix =
              Inl (Wrap e (''failed to load rules from s3://'' @ bucket @ ''/'' @ key))"
      by (simp add: LoadRules_def)
  qed
  have 7: "\<forall>keys. listObjects l bucket prefix = Inr keys \<and> keys \<noteq> []
          \<and> LoadRules_loop lib l bucket keys [] = Inr []
        \<longrightarrow> LoadRules lib l bucket prefix =
              Inl (Newf (''no rules loaded from s3://'' @ bucket @ ''/'' @ prefix))"
    by (simp add: LoadRules_def)
  have 8: "listObjects l bucket prefix = Inr [] \<longrightarrow>
         LoadRules lib l bucket prefix =
           Inl (Newf (''no objects found in s3://'' @ bucket @ ''/'' @ prefix))"
    by (simp add: LoadRules_def)
  have 9: "LoadRules lib l bucket prefix \<noteq> Inr []"
    by (rule LoadRules_nonempty)
  from 1 2 3 4 5 6 7 8 9 show ?thesis by blast
qed

theorem LoadRules_parse_and_errors_witness:
  "parseRules sample_lib blank_document = Inr []
   \<and> parseRules sample_lib ([CHR 0x20] @ ''[]'' @ [CHR 0x0A]) = Inr []
   \<and> parseRules sample_lib doc_rule_high = Inr [rule_high]
   \<and> LoadRules sample_lib loader_malformed ''rules-bucket'' ''rules/''
       = Inl (Wrap (Wrap SyntaxError ''failed to parse single rule'')
                   ''failed to load rules from s3://rules-bucket/rules/invalid.json'')
   \<and> LoadRules sample_lib loader_without_rules ''rules-bucket'' ''rules/''
       = Inl (Newf ''no rules loaded from s3://rules-bucket/rules/'')"
proof -
  note t1 = LoadRules_parse_and_errors[where data = blank_document and lib = sample_lib
      and l = loader_without_rules and bucket = "''rules-bucket''" and prefix = "''rules/''"]
  note t2 = LoadRules_parse_and_errors[where data = "''{invalid json''" and lib = sample_lib
      and l = loader_malformed and bucket = "''rules-bucket''" and prefix = "''rules/''"]
  have a: "parseRules sample_lib blank_document = Inr []"
    using t1 blank_document_spaces by blast
  have b: "LoadRules sample_lib loader_without_rules ''rules-bucket'' ''rules/''
       = Inl (Newf ''no rules loaded from s3://rules-bucket/rules/'')"
  proof -
    from t1 have "\<forall>keys. listObjects loader_without_rules ''rules-bucket'' ''rules/'' = Inr keys
          \<and> keys \<noteq> []
          \<and> LoadRules_loop sample_lib loader_without_rules ''rules-bucket'' keys [] = Inr []
        \<longrightarrow> LoadRules sample_lib loader_without_rules ''rules-bucket'' ''rules/'' =
              Inl (Newf (''no rules loaded from s3://'' @ ''rules-bucket'' @ ''/'' @ ''rules/''))"
      by blast
    with listing_without_rules scan_without_rules show ?thesis by simp
  qed
  have c: "LoadRules sample_lib loader_malformed ''rules-bucket'' ''rules/''
       = Inl (Wrap (Wrap SyntaxError ''failed to parse single rule'')
                   ''failed to load rules from s3://rules-bucket/rules/invalid.json'')"
  proof -
    from t2 have "\<forall>ks1 key ks2 e.
          listObjects loader_malformed ''rules-bucket'' ''rules/'' = Inr (ks1 @ key # ks2)
          \<and> (\<forall>k\<in>set ks1. HasSuffix k ''.json'' \<longrightarrow>
                (\<exists>rs. loadRulesFromObject sample_lib loader_malformed ''rules-bucket'' k = Inr rs))
          \<and> HasSuffix key ''.json''
          \<and> GetObject (S3RulesLoader.client loader_malformed) ''rules-bucket'' key
               = Inr (Inr ''{invalid json'')
          \<and> parseRules sample_lib ''{invalid json'' = Inl e
        \<longrightarrow> LoadRules sample_lib loader_malformed ''rules-bucket'' ''rules/'' =
              Inl (Wrap e (''failed to load rules from s3://'' @ ''rules-bucket'' @ ''/'' @ key))"
      by blast
    from this[rule_format, of "[''rules/high.json'']" "''rules/invalid.json''" "[]"
        "Wrap SyntaxError ''failed to parse single rule''"]
      listing_malformed malformed_facts parseRules_invalid
    show ?thesis by simp
  qed
  from a b c blank_document_spaces parseRules_empty_array parseRules_doc_rule_high
  show ?thesis by blast
qed

section \<open>Rule aggregation: properties\<close>

text \<open>
  C9. The rules of the engine that \<^verbatim>\<open>New\<close> builds are the configured (inline) rules
  followed by the rules loaded from S3, each in its own order, nothing removed and
  nothing reordered: every inline rule keeps its index, and the \<open>j\<close>-th loaded rule
  sits at index \<open>length inline + j\<close>. Without a bucket the rules are the inline
  rules.
\<close>

theorem New_rules_inline_then_external:
  assumes "New lib env cfg = Inr app"
  shows "(AutoCloseRulesS3Bucket cfg = [] \<longrightarrow> Rules (FilterEngine app) = AutoCloseRules cfg)
    \<and> (AutoCloseRulesS3Bucket cfg \<noteq> [] \<longrightarrow>
         (\<exists>awsCfg s3Rules.
            LoadDefaultConfig env = Inr awsCfg
            \<and> LoadRules lib (NewS3RulesLoader (s3_NewFromConfig awsCfg))
                 (AutoCloseRulesS3Bucket cfg) (AutoCloseRulesS3Prefix cfg) = Inr s3Rules
            \<and> Rules (FilterEngine app) = AutoCloseRules cfg @ s3Rules
            \<and> (\<forall>i<length (AutoCloseRules cfg).
                  Rules (FilterEngine app) ! i = AutoCloseRules cfg ! i)
            \<and> (\<forall>j<length s3Rules.
                  Rules (FilterEngine app) ! (length (AutoCloseRules cfg) + j) = s3Rules ! j)))"
proof (cases "LoadDefaultConfig env")
  case (Inl e)
  with assms show ?thesis by (simp add: New_def)
next
  case (Inr awsCfg)
  show ?thesis
  proof (cases "AutoCloseRulesS3Bucket cfg = []")
    case True
    with assms Inr show ?thesis
      by (auto simp: New_def Let_def NewFilterEngine_def)
  next
    case False
    show ?thesis
    proof (cases "LoadRules lib (NewS3RulesLoader (s3_NewFromConfig awsCfg))
                    (AutoCloseRulesS3Bucket cfg) (AutoCloseRulesS3Prefix cfg)")
      case (Inl e)
      with assms Inr False show ?thesis
        by (simp add: New_def Let_def LoadRulesFromS3_def)
    next
      case r: (Inr s3Rules)
      with assms Inr False have "Rules (FilterEngine app) = AutoCloseRules cfg @ s3Rules"
        by (auto simp: New_def Let_def LoadRulesFromS3_def NewFilterEngine_def split: if_splits)
      with r Inr False show ?thesis
        by (simp add: nth_append)
    qed
  qed
qed

theorem New_rules_inline_then_external_witness:
  "New sample_lib (sample_env [(''rules/high.json'', doc_rule_high)]) config_both
     = Inr ((sample_app [rule_low, rule_implicit, rule_high] client_accepts
               (Some notifier_delivers))\<lparr>Config := config_both\<rparr>)
   \<and> AutoCloseRulesS3Bucket config_both \<noteq> []
   \<and> Rules (FilterEngine
        ((sample_app [rule_low, rule_implicit, rule_high] client_accepts
            (Some notifier_delivers))\<lparr>Config := config_both\<rparr>))
       = AutoCloseRules config_both @ [rule_high]"
proof -
  have n: "New sample_lib (sample_env [(''rules/high.json'', doc_rule_high)]) config_both
     = Inr ((sample_app [rule_low, rule_implicit, rule_high] client_accepts
               (Some notifier_delivers))\<lparr>Config := config_both\<rparr>)"
    using LoadRules_high
    by (simp add: New_def sample_env_def LoadRulesFromS3_def sample_app_def sample_config_def
        config_both_def NewFindingCloser_def)
  show ?thesis
    using n New_rules_inline_then_external[OF n]
    by (simp add: sample_app_def NewFilterEngine_def config_both_def sample_config_def)
qed

section \<open>Rules are disabled unless enabled: properties\<close>

lemma field_AutoCloseRule_Enabled:
  "field_AutoCloseRule k v cur = Inr cur' \<Longrightarrow> \<not> Enabled cur \<Longrightarrow>
   \<not> (matchesField k ''enabled'' \<and> v = JBool True) \<Longrightarrow> \<not> Enabled cur'"
  by (auto simp: field_AutoCloseRule_def store_def decode_bool_def
      split: if_splits sum.splits json.splits)

lemma decode_members_Enabled:
  "decode_members field_AutoCloseRule ms cur = Inr r \<Longrightarrow> \<not> Enabled cur \<Longrightarrow>
   \<forall>kv\<in>set ms. \<not> (matchesField (fst kv) ''enabled'' \<and> snd kv = JBool True) \<Longrightarrow>
     \<not> Enabled r"
proof (induction ms arbitrary: cur)
  case Nil
  then show ?case by simp
next
  case (Cons m ms)
  obtain k v where m: "m = (k, v)" by (cases m)
  from Cons.prems(1) m obtain cur' where
    s: "field_AutoCloseRule k v cur = Inr cur'" and
    t: "decode_members field_AutoCloseRule ms cur' = Inr r"
    by (auto split: sum.splits)
  from Cons.prems(3) m have "\<not> (matchesField k ''enabled'' \<and> v = JBool True)" by simp
  from field_AutoCloseRule_Enabled[OF s Cons.prems(2) this] have "\<not> Enabled cur'" .
  moreover from Cons.prems(3)
  have "\<forall>kv\<in>set ms. \<not> (matchesField (fst kv) ''enabled'' \<and> snd kv = JBool True)" by simp
  ultimately show ?case using Cons.IH[OF t] by blast
qed

lemma decode_AutoCloseRule_Enabled:
  "decode_AutoCloseRule v zero_AutoCloseRule = Inr r \<Longrightarrow> \<not> sets_enabled_true v \<Longrightarrow> \<not> Enabled r"
proof (cases v)
  case (JObject ms)
  assume d: "decode_AutoCloseRule v zero_AutoCloseRule = Inr r" and n: "\<not> sets_enabled_true v"
  from d JObject have "decode_members field_AutoCloseRule ms zero_AutoCloseRule = Inr r"
    by (simp add: decode_AutoCloseRule_def decode_struct_def)
  moreover have "\<not> Enabled zero_AutoCloseRule" by (simp add: zero_AutoCloseRule_def)
  moreover from n JObject
  have "\<forall>kv\<in>set ms. \<not> (matchesField (fst kv) ''enabled'' \<and> snd kv = JBool True)"
    by (simp add: sets_enabled_true_def)
  ultimately show ?thesis by (rule decode_members_Enabled)
qed (auto simp: decode_AutoCloseRule_def decode_struct_def zero_AutoCloseRule_def)

lemma decode_elements_Enabled:
  "decode_elements decode_AutoCloseRule zero_AutoCloseRule vs = Inr rs \<Longrightarrow>
     length rs = length vs \<and> (\<forall>j<length vs. \<not> sets_enabled_true (vs ! j) \<longrightarrow> \<not> Enabled (rs ! j))"
proof (induction vs arbitrary: rs)
  case Nil
  then show ?case by simp
next
  case (Cons v vs)
  from Cons.prems obtain x xs where
    x: "decode_AutoCloseRule v zero_AutoCloseRule = Inr x" and
    xs: "decode_elements decode_AutoCloseRule zero_AutoCloseRule vs = Inr xs" and
    rs: "rs = x # xs"
    by (auto split: sum.splits)
  from Cons.IH[OF xs] have ih: "length xs = length vs"
    "\<forall>j<length vs. \<not> sets_enabled_true (vs ! j) \<longrightarrow> \<not> Enabled (xs ! j)" by blast+
  have "\<forall>j<length (v # vs). \<not> sets_enabled_true ((v # vs) ! j) \<longrightarrow> \<not> Enabled (rs ! j)"
  proof (intro allI impI)
    fix j assume j: "j < length (v # vs)" and n: "\<not> sets_enabled_true ((v # vs) ! j)"
    show "\<not> Enabled (rs ! j)"
    proof (cases j)
      case 0
      with n x rs show ?thesis by (simp add: decode_AutoCloseRule_Enabled)
    next
      case (Suc j')
      with j n ih rs show ?thesis by simp
    qed
  qed
  with ih rs show ?case by simp
qed

lemma FindMatchingRule_Enabled:
  "FindMatchingRule e finding = (Some i, b) \<Longrightarrow> i < length (Rules e) \<and> Enabled (Rules e ! i)"
  using FindMatchingRule_cases[of e finding] by (auto simp: rule_applies_def)

text \<open>
  C10. Decoding a rule from an object without a member for the \<^verbatim>\<open>enabled\<close> field
  gives \<^verbatim>\<open>Enabled = false\<close>, and so does every source that does not set
  "enabled": true, alone or as an element of an array of rules.
  \<^verbatim>\<open>FindMatchingRule\<close> never returns a rule whose \<^verbatim>\<open>Enabled\<close> is false; hence it
  never returns a rule decoded from such a source.
\<close>

theorem omitted_enabled_never_matches:
  "(decode_AutoCloseRule (JObject ms) zero_AutoCloseRule = Inr r
      \<and> (\<forall>kv\<in>set ms. \<not> matchesField (fst kv) ''enabled'') \<longrightarrow> \<not> Enabled r)
   \<and> (decode_AutoCloseRule v zero_AutoCloseRule = Inr r' \<and> \<not> sets_enabled_true v
        \<longrightarrow> \<not> Enabled r')
   \<and> (\<forall>vs rs j. decode_slice decode_AutoCloseRule zero_AutoCloseRule (JArray vs) = Inr rs
          \<and> j < length vs \<and> \<not> sets_enabled_true (vs ! j)
        \<longrightarrow> j < length rs \<and> \<not> Enabled (rs ! j))
   \<and> (\<forall>i. i < length (Rules e) \<and> \<not> Enabled (Rules e ! i)
        \<longrightarrow> FindMatchingRule e finding \<noteq> (Some i, True))
   \<and> (\<forall>i. decode_AutoCloseRule v zero_AutoCloseRule = Inr r' \<and> \<not> sets_enabled_true v
          \<and> i < length (Rules e) \<and> Rules e ! i = r'
        \<longrightarrow> FindMatchingRule e finding \<noteq> (Some i, True))"
proof -
  have 1: "decode_AutoCloseRule (JObject ms) zero_AutoCloseRule = Inr r
      \<and> (\<forall>kv\<in>set ms. \<not> matchesField (fst kv) ''enabled'') \<longrightarrow> \<not> Enabled r"
  proof
    assume a: "decode_AutoCloseRule (JObject ms) zero_AutoCloseRule = Inr r
      \<and> (\<forall>kv\<in>set ms. \<not> matchesField (fst kv) ''enabled'')"
    then have "\<not> sets_enabled_true (JObject ms)" by (simp add: sets_enabled_true_def)
    with a show "\<not> Enabled r" using decode_AutoCloseRule_Enabled by blast
  qed
  have 2: "decode_AutoCloseRule v zero_AutoCloseRule = Inr r' \<and> \<not> sets_enabled_true v
        \<longrightarrow> \<not> Enabled r'"
    using decode_AutoCloseRule_Enabled by blast
  have 3: "\<forall>vs rs j. decode_slice decode_AutoCloseRule zero_AutoCloseRule (JArray vs) = Inr rs
          \<and> j < length vs \<and> \<not> sets_enabled_true (vs ! j)
        \<longrightarrow> j < length rs \<and> \<not> Enabled (rs ! j)"
    using decode_elements_Enabled by (fastforce simp: decode_slice_def)
  have 4: "\<forall>i. i < length (Rules e) \<and> \<not> Enabled (Rules e ! i)
        \<longrightarrow> FindMatchingRule e finding \<noteq> (Some i, True)"
    using FindMatchingRule_Enabled[of e finding] by blast
  from 2 4 have 5: "\<forall>i. decode_AutoCloseRule v zero_AutoCloseRule = Inr r' \<and> \<not> sets_enabled_true v
          \<and> i < length (Rules e) \<and> Rules e ! i = r'
        \<longrightarrow> FindMatchingRule e finding \<noteq> (Some i, True)"
    by blast
  from 1 2 3 4 5 show ?thesis by blast
qed

theorem omitted_enabled_never_matches_witness:
  "decode_AutoCloseRule tree_rule_implicit zero_AutoCloseRule = Inr rule_implicit
   \<and> \<not> sets_enabled_true tree_rule_implicit
   \<and> \<not> Enabled rule_implicit
   \<and> matchesFilters (NewFilterEngine [rule_implicit, rule_high]) sample_finding
        (Filters rule_implicit)
   \<and> FindMatchingRule (NewFilterEngine [rule_implicit, rule_high]) sample_finding
        \<noteq> (Some 0, True)
   \<and> FindMatchingRule (NewFilterEngine [rule_implicit, rule_high]) sample_finding
        = (Some 1, True)"
proof -
  have m: "matchesFilters (NewFilterEngine [rule_implicit, rule_high]) sample_finding
        (Filters rule_implicit)"
    by (simp add: matchesFilters_def rule_implicit_def sample_defs)
  have f: "FindMatchingRule (NewFilterEngine [rule_implicit, rule_high]) sample_finding
        = (Some 1, True)"
    by (simp add: FindMatchingRule_def NewFilterEngine_def matchesFilters_def rule_implicit_def
        rule_high_def zero_AutoCloseRule_def zero_RuleAction_def sample_defs)
  show ?thesis
    using m f decode_rule_implicit implicit_not_enabled
      omitted_enabled_never_matches[where v = tree_rule_implicit and r' = rule_implicit
        and e = "NewFilterEngine [rule_implicit, rule_high]" and finding = sample_finding
        and ms = "[]" and r = zero_AutoCloseRule]
    by (simp add: NewFilterEngine_def)
qed

end
